theory Spec2Isabelle
  imports Main "HOL-Library.Sublist"
begin

section \<open>The form widget: data\<close>

text \<open>
  The repository holds one React component, \<open>App\<close>, in several revisions.  Two of them
  are modelled:
  \<^item> the stand-alone form (\<open>src/App.tsx\<close>, first revision), whose five fields (environments,
    locales, variant, entry uid, content type) are all form values;
  \<^item> the host-integrated form (the revision that calls \<open>ContentStackAppSDK.init\<close>), whose
    entry uid, content type and stack API key are component state filled in from the
    sidebar widget of the CMS host.  Its names carry the suffix \<open>_host\<close> where they would
    clash with the stand-alone ones.

  The remaining revision (the second one in \<open>src/App.tsx\<close>) is the stand-alone form with
  the option object of the host-integrated form as its variant and a \<open>console.log\<close> of the
  form data before validation; its handlers are otherwise those of the stand-alone form.

  JavaScript strings are modelled as \<open>string\<close> (lists of 8-bit characters, the range on
  which \<open>btoa\<close> is defined), booleans as \<open>bool\<close>, and the numeric option id as \<open>int\<close>.
\<close>

subsection \<open>Form values\<close>

text \<open>The two groups of check boxes, in the key order of \<open>defaultValues\<close>.\<close>

record env_flags =
  production :: bool
  staging :: bool
  development :: bool

record locale_flags =
  en_us :: bool
  fr_fr :: bool
  es :: bool

text \<open>\<open>FormValues\<close> of the stand-alone form: \<open>z.infer<typeof formSchema>\<close>.\<close>

record FormValues =
  environments :: env_flags
  locales :: locale_flags
  variant :: string
  entryUid :: string
  contentType :: string

text \<open>The option object of the Venus select: \<open>{ id, label, value }\<close>.\<close>

record variant_option =
  variant_id :: int
  variant_label :: string
  variant_value :: string

text \<open>\<open>FormValues\<close> of the host-integrated form.\<close>

record FormValues_host =
  environments_host :: env_flags
  locales_host :: locale_flags
  variant_host :: variant_option

subsection \<open>Validation issues and inline errors\<close>

text \<open>
  A Zod issue, as far as the component reads it: \<open>error.path\<close> and \<open>error.message\<close>.
\<close>

record zod_issue =
  issue_path :: "string list"
  issue_message :: string

text \<open>
  An entry of the \<open>formErrors\<close> state, \<open>{ path, message }\<close>.  The path is
  \<open>error.path[0]\<close>, which JavaScript evaluates to \<open>undefined\<close> on an empty array:
  \<open>None\<close> stands for \<open>undefined\<close>.
\<close>

record form_error =
  path :: "string option"
  message :: string

subsection \<open>JavaScript values handed to \<open>JSON.stringify\<close>\<close>

text \<open>An object literal is the list of its properties in insertion order.\<close>

datatype json =
    JStr string
  | JNum int
  | JArr "json list"
  | JObj "(string \<times> json) list"

subsection \<open>Calls leaving the component\<close>

text \<open>
  Every call that a handler makes is recorded, in program order, with its arguments.
  \<open>'d\<close> is the type of the form values.
\<close>

datatype 'd event =
    Alert string
  | GetValues
  | ConsoleLogData 'd
  | SafeParse 'd
  | ConsoleLogIssues "zod_issue list"
  | SetFormErrors "form_error list"
  | Stringify json
  | Encrypt string string
  | Btoa string
  | WindowOpen string string

text \<open>
  The collaborators that the component only calls: \<open>JSON.stringify\<close>,
  \<open>CryptoJS.AES.encrypt(_, _).toString()\<close> and the secret
  \<open>import.meta.env.VITE_APP_ENCRYPT_SECRET\<close>.
\<close>

record collaborators =
  JSON_stringify :: "json \<Rightarrow> string"
  AES_encrypt :: "string \<Rightarrow> string \<Rightarrow> string"
  VITE_APP_ENCRYPT_SECRET :: string

subsection \<open>Component state\<close>

record app_state =
  formValues :: FormValues
  formErrors :: "form_error list"

record app_state_host =
  formValues_host :: FormValues_host
  entryUid_host :: string
  contentType_host :: string
  stackAPI :: string
  formErrors_host :: "form_error list"

text \<open>
  What \<open>appSdk.location.SidebarWidget\<close> offers to the initialisation effect:
  \<open>entry.content_type.uid\<close>, \<open>entry._data.uid\<close> and \<open>stack._data.api_key\<close>, each possibly
  \<open>undefined\<close> (\<open>None\<close>).
\<close>

record SidebarWidget =
  entry_content_type_uid :: "string option"
  entry_data_uid :: "string option"
  stack_data_api_key :: "string option"

section \<open>Library functions\<close>

subsection \<open>\<open>btoa\<close>\<close>

definition b64_alphabet :: string where
  "b64_alphabet = ''ABCDEFGHIJKLMNOPQRSTUVWXYZabcdefghijklmnopqrstuvwxyz0123456789+/''"

definition b64_digit :: "nat \<Rightarrow> char" where
  "b64_digit n = b64_alphabet ! (n mod 64)"

text \<open>Three bytes become four digits; a final group of one or two bytes is padded.\<close>

fun btoa :: "string \<Rightarrow> string" where
  "btoa [] = []"
| "btoa [a] =
     (let x = (of_char a :: nat)
      in [b64_digit (x div 4), b64_digit ((x mod 4) * 16), CHR ''='', CHR ''=''])"
| "btoa [a, b] =
     (let x = (of_char a :: nat); y = (of_char b :: nat)
      in [b64_digit (x div 4), b64_digit ((x mod 4) * 16 + y div 16),
          b64_digit ((y mod 16) * 4), CHR ''=''])"
| "btoa (a # b # c # rest) =
     (let x = (of_char a :: nat); y = (of_char b :: nat); z = (of_char c :: nat)
      in [b64_digit (x div 4), b64_digit ((x mod 4) * 16 + y div 16),
          b64_digit ((y mod 16) * 4 + z div 64), b64_digit (z mod 64)] @ btoa rest)"

subsection \<open>\<open>Object.entries\<close> and \<open>Object.values\<close> on the check-box groups\<close>

definition entries_env :: "env_flags \<Rightarrow> (string \<times> bool) list" where
  "entries_env e =
     [(''production'', production e), (''staging'', staging e),
      (''development'', development e)]"

definition entries_locale :: "locale_flags \<Rightarrow> (string \<times> bool) list" where
  "entries_locale l = [(''en-us'', en_us l), (''fr-fr'', fr_fr l), (''es'', es l)]"

text \<open>\<open>Object.values(data).some(Boolean)\<close>\<close>

definition some_Boolean :: "(string \<times> bool) list \<Rightarrow> bool" where
  "some_Boolean kvs = list_ex (\<lambda>v. v) (map snd kvs)"

text \<open>\<open>Object.entries(o).filter(([_, selected]) => selected).map(([k]) => k)\<close>\<close>

definition selected_keys :: "(string \<times> bool) list \<Rightarrow> string list" where
  "selected_keys kvs = map fst (filter (\<lambda>(_, selected). selected) kvs)"

section \<open>The validation schema\<close>

text \<open>
  \<open>formSchema.safeParse\<close> visits the keys of the object schema in the order in which
  they are declared and collects the issue of every key that fails; it succeeds when it
  has collected none.  A refinement on an object reports at the path of that object, a
  \<open>min(1)\<close> on a string at the path of the string.
\<close>

definition issue :: "string list \<Rightarrow> string \<Rightarrow> zod_issue" where
  "issue p m = \<lparr>issue_path = p, issue_message = m\<rparr>"

text \<open>\<open>.refine((data) => Object.values(data).some(Boolean), { message })\<close>\<close>

definition refine_some :: "string list \<Rightarrow> string \<Rightarrow> (string \<times> bool) list \<Rightarrow> zod_issue list" where
  "refine_some p m kvs = (if some_Boolean kvs then [] else [issue p m])"

text \<open>\<open>z.string().min(1, message)\<close>\<close>

definition string_min1 :: "string list \<Rightarrow> string \<Rightarrow> string \<Rightarrow> zod_issue list" where
  "string_min1 p m s = (if length s < 1 then [issue p m] else [])"

definition formSchema_issues :: "FormValues \<Rightarrow> zod_issue list" where
  "formSchema_issues d =
     refine_some [''environments''] ''Please select at least one environment''
       (entries_env (environments d))
     @ refine_some [''locales''] ''Please select at least one locale''
       (entries_locale (locales d))
     @ string_min1 [''variant''] ''Please select a variant'' (variant d)
     @ string_min1 [''entryUid''] ''Entry UID is required'' (entryUid d)
     @ string_min1 [''contentType''] ''Content Type is required'' (contentType d)"

definition safeParse :: "FormValues \<Rightarrow> zod_issue list + FormValues" where
  "safeParse d = (let errors = formSchema_issues d in if errors = [] then Inr d else Inl errors)"

definition formSchema_host_issues :: "FormValues_host \<Rightarrow> zod_issue list" where
  "formSchema_host_issues d =
     refine_some [''environments''] ''Please select at least one environment''
       (entries_env (environments_host d))
     @ refine_some [''locales''] ''Please select at least one locale''
       (entries_locale (locales_host d))
     @ string_min1 [''variant'', ''label''] ''Variant is required''
       (variant_label (variant_host d))
     @ string_min1 [''variant'', ''value''] ''Variant is required''
       (variant_value (variant_host d))"

definition safeParse_host :: "FormValues_host \<Rightarrow> zod_issue list + FormValues_host" where
  "safeParse_host d =
     (let errors = formSchema_host_issues d in if errors = [] then Inr d else Inl errors)"

section \<open>The handlers\<close>

text \<open>\<open>error => ({ path: error.path[0] as string, message: error.message })\<close>\<close>

definition path0 :: "string list \<Rightarrow> string option" where
  "path0 p = (case p of [] \<Rightarrow> None | k # _ \<Rightarrow> Some k)"

definition errorMessage :: "zod_issue \<Rightarrow> form_error" where
  "errorMessage e = \<lparr>path = path0 (issue_path e), message = issue_message e\<rparr>"

subsection \<open>Stand-alone form\<close>

definition result :: "FormValues \<Rightarrow> json" where
  "result d =
     JObj [(''environments'', JArr (map JStr (selected_keys (entries_env (environments d))))),
           (''locales'', JArr (map JStr (selected_keys (entries_locale (locales d))))),
           (''variant'', JStr (variant d)),
           (''entryUid'', JStr (entryUid d)),
           (''contentType'', JStr (contentType d))]"

definition handleButtonClick ::
  "collaborators \<Rightarrow> app_state \<Rightarrow> app_state \<times> FormValues event list" where
  "handleButtonClick c s =
     (let d = formValues s in
      case safeParse d of
        Inl errors \<Rightarrow>
          (let errorMessages = map errorMessage errors
           in (s\<lparr>formErrors := errorMessages\<rparr>,
               [GetValues, SafeParse d, ConsoleLogIssues errors, SetFormErrors errorMessages]))
      | Inr _ \<Rightarrow>
          (let r = result d;
               text = JSON_stringify c r;
               encryptedResult = AES_encrypt c text (VITE_APP_ENCRYPT_SECRET c);
               url = ''https://demo-graph.contentstackapps.com?data='' @ btoa encryptedResult
           in (s\<lparr>formErrors := []\<rparr>,
               [GetValues, SafeParse d, SetFormErrors [], Stringify r,
                Encrypt text (VITE_APP_ENCRYPT_SECRET c), Btoa encryptedResult,
                WindowOpen url ''_blank''])))"

text \<open>\<open>setFormErrors((prevErrors) => prevErrors.filter(error => error.path !== fieldName))\<close>\<close>

definition handleFieldChange :: "string \<Rightarrow> app_state \<Rightarrow> app_state" where
  "handleFieldChange fieldName s =
     s\<lparr>formErrors := filter (\<lambda>error. path error \<noteq> Some fieldName) (formErrors s)\<rparr>"

subsection \<open>Host-integrated form\<close>

definition result_host :: "app_state_host \<Rightarrow> FormValues_host \<Rightarrow> json" where
  "result_host s d =
     JObj [(''environments'',
              JArr (map JStr (selected_keys (entries_env (environments_host d))))),
           (''locales'', JArr (map JStr (selected_keys (entries_locale (locales_host d))))),
           (''variant'',
              JObj [(''id'', JNum (variant_id (variant_host d))),
                    (''label'', JStr (variant_label (variant_host d))),
                    (''value'', JStr (variant_value (variant_host d)))]),
           (''entryUid'', JStr (entryUid_host s)),
           (''contentType'', JStr (contentType_host s)),
           (''stackAPI'', JStr (stackAPI s))]"

definition handleButtonClick_host ::
  "collaborators \<Rightarrow> app_state_host \<Rightarrow> app_state_host \<times> FormValues_host event list" where
  "handleButtonClick_host c s =
     (if entryUid_host s = [] \<or> contentType_host s = [] \<or> stackAPI s = [] then
        (s, [Alert ''Entry Uid or Content type or Stack API could not be retrieved''])
      else
        (let d = formValues_host s in
         case safeParse_host d of
           Inl errors \<Rightarrow>
             (let errorMessages = map errorMessage errors
              in (s\<lparr>formErrors_host := errorMessages\<rparr>,
                  [GetValues, ConsoleLogData d, SafeParse d, ConsoleLogIssues errors,
                   SetFormErrors errorMessages]))
         | Inr _ \<Rightarrow>
             (let r = result_host s d;
                  text = JSON_stringify c r;
                  encryptedResult = AES_encrypt c text (VITE_APP_ENCRYPT_SECRET c);
                  url = ''https://demo-graph-refactored.contentstackapps.com/?data=''
                          @ btoa encryptedResult
              in (s\<lparr>formErrors_host := []\<rparr>,
                  [GetValues, ConsoleLogData d, SafeParse d, SetFormErrors [], Stringify r,
                   Encrypt text (VITE_APP_ENCRYPT_SECRET c), Btoa encryptedResult,
                   WindowOpen url ''_blank'']))))"

definition handleFieldChange_host :: "string \<Rightarrow> app_state_host \<Rightarrow> app_state_host" where
  "handleFieldChange_host fieldName s =
     s\<lparr>formErrors_host :=
         filter (\<lambda>error. path error \<noteq> Some fieldName) (formErrors_host s)\<rparr>"

text \<open>\<open>x || ""\<close> on a string that may be \<open>undefined\<close>\<close>

definition or_empty :: "string option \<Rightarrow> string" where
  "or_empty x = (case x of None \<Rightarrow> [] | Some v \<Rightarrow> if v = [] then [] else v)"

text \<open>
  The callback of \<open>ContentStackAppSDK.init().then\<close>; \<open>parentWindow\<close> is
  \<open>appSdk.location.SidebarWidget\<close>, \<open>None\<close> where the SDK provides none, and
  \<open>parentWindow?.f\<close> is then \<open>undefined\<close>.
\<close>

definition init_then :: "SidebarWidget option \<Rightarrow> app_state_host \<Rightarrow> app_state_host" where
  "init_then parentWindow s =
     s\<lparr>contentType_host := or_empty (Option.bind parentWindow entry_content_type_uid),
       entryUid_host := or_empty (Option.bind parentWindow entry_data_uid),
       stackAPI := or_empty (Option.bind parentWindow stack_data_api_key)\<rparr>"

subsection \<open>What the form shows\<close>

text \<open>
  \<open>{formErrors.length > 0 && <FormHelperText error>
     {formErrors.find((error) => error.path === name)?.message}</FormHelperText>}\<close>:
  the text under the field \<open>name\<close>, \<open>None\<close> when there is none.
\<close>

definition helperText :: "string \<Rightarrow> form_error list \<Rightarrow> string option" where
  "helperText name errs =
     (if length errs > 0
      then map_option message (find (\<lambda>error. path error = Some name) errs)
      else None)"

section \<open>Reading a trace\<close>

text \<open>The arguments of the \<open>window.open\<close> calls of a trace, in order.\<close>

fun window_open_args :: "'d event \<Rightarrow> (string \<times> string) list" where
  "window_open_args (WindowOpen url target) = [(url, target)]"
| "window_open_args _ = []"

definition window_opens :: "'d event list \<Rightarrow> (string \<times> string) list" where
  "window_opens t = concat (map window_open_args t)"

text \<open>The objects given to \<open>JSON.stringify\<close>.\<close>

fun stringify_args :: "'d event \<Rightarrow> json list" where
  "stringify_args (Stringify r) = [r]"
| "stringify_args _ = []"

definition payloads :: "'d event list \<Rightarrow> json list" where
  "payloads t = concat (map stringify_args t)"

text \<open>The plaintext and key given to \<open>CryptoJS.AES.encrypt\<close>.\<close>

fun encrypt_args :: "'d event \<Rightarrow> (string \<times> string) list" where
  "encrypt_args (Encrypt text key) = [(text, key)]"
| "encrypt_args _ = []"

definition encryptions :: "'d event list \<Rightarrow> (string \<times> string) list" where
  "encryptions t = concat (map encrypt_args t)"

text \<open>The messages of the \<open>alert\<close> calls.\<close>

fun alert_args :: "'d event \<Rightarrow> string list" where
  "alert_args (Alert m) = [m]"
| "alert_args _ = []"

definition alerts :: "'d event list \<Rightarrow> string list" where
  "alerts t = concat (map alert_args t)"

text \<open>The four steps of a submission, as they show in a trace.\<close>

datatype step = Validate | Serialize | Encipher | Redirect

fun step_of :: "'d event \<Rightarrow> step list" where
  "step_of (SafeParse _) = [Validate]"
| "step_of (Stringify _) = [Serialize]"
| "step_of (Encrypt _ _) = [Encipher]"
| "step_of (WindowOpen _ _) = [Redirect]"
| "step_of _ = []"

definition steps :: "'d event list \<Rightarrow> step list" where
  "steps t = concat (map step_of t)"

text \<open>
  The calls whose effect is seen outside the component: a dialog, a line on the console, a
  browser tab.  The others compute a value or set component state.
\<close>

fun external :: "'d event \<Rightarrow> bool" where
  "external (Alert _) = True"
| "external (ConsoleLogData _) = True"
| "external (ConsoleLogIssues _) = True"
| "external (WindowOpen _ _) = True"
| "external _ = False"

text \<open>
  For every \<open>window.open\<close> of a trace, the error list that was last given to
  \<open>setFormErrors\<close> when the call is made (\<open>cur\<close> before the first \<open>setFormErrors\<close>).
\<close>

fun errors_at_open :: "form_error list \<Rightarrow> 'd event list \<Rightarrow> form_error list list" where
  "errors_at_open cur [] = []"
| "errors_at_open cur (SetFormErrors errs # t) = errors_at_open errs t"
| "errors_at_open cur (WindowOpen url target # t) = cur # errors_at_open cur t"
| "errors_at_open cur (_ # t) = errors_at_open cur t"

text \<open>
  The string that \<open>CryptoJS.AES.encrypt(JSON.stringify(r), secret).toString()\<close> returns for
  an object \<open>r\<close>.
\<close>

definition ciphertext :: "collaborators \<Rightarrow> json \<Rightarrow> string" where
  "ciphertext c r = AES_encrypt c (JSON_stringify c r) (VITE_APP_ENCRYPT_SECRET c)"

text \<open>The value of the property \<open>k\<close> of an object.\<close>

definition payload_field :: "string \<Rightarrow> json \<Rightarrow> json option" where
  "payload_field k r = (case r of JObj kvs \<Rightarrow> map_of kvs k | _ \<Rightarrow> None)"

section \<open>Sample inputs\<close>

text \<open>
  Stand-ins for the two library calls, to run the handlers on concrete inputs.
  \<open>sample_stringify\<close> prints the JSON text of a value (strings quoted and escaped as
  \<open>JSON.stringify\<close> does for 8-bit characters, integers in decimal).  \<open>sample_encrypt\<close> is
  no cipher: it only builds the printed envelope of a CryptoJS ciphertext, the Base64 of
  \<open>Salted__\<close> followed by a salt and a body, from the key and the plaintext themselves.
\<close>

definition hex_digit :: "nat \<Rightarrow> char" where
  "hex_digit n = ''0123456789abcdef'' ! (n mod 16)"

definition quote_char :: "char \<Rightarrow> string" where
  "quote_char ch =
     (if ch = CHR 0x22 then [CHR 0x5C, CHR 0x22]
      else if ch = CHR 0x5C then [CHR 0x5C, CHR 0x5C]
      else if ch = CHR 0x08 then [CHR 0x5C, CHR ''b'']
      else if ch = CHR 0x09 then [CHR 0x5C, CHR ''t'']
      else if ch = CHR 0x0A then [CHR 0x5C, CHR ''n'']
      else if ch = CHR 0x0C then [CHR 0x5C, CHR ''f'']
      else if ch = CHR 0x0D then [CHR 0x5C, CHR ''r'']
      else if (of_char ch :: nat) < 32
        then [CHR 0x5C, CHR ''u'', CHR ''0'', CHR ''0'',
              hex_digit ((of_char ch :: nat) div 16), hex_digit (of_char ch :: nat)]
      else [ch])"

definition quote :: "string \<Rightarrow> string" where
  "quote s = [CHR 0x22] @ concat (map quote_char s) @ [CHR 0x22]"

fun show_nat :: "nat \<Rightarrow> string" where
  "show_nat n =
     (if n < 10 then [''0123456789'' ! n]
      else show_nat (n div 10) @ [''0123456789'' ! (n mod 10)])"

declare show_nat.simps [simp del]

definition show_int :: "int \<Rightarrow> string" where
  "show_int i = (if i < 0 then ''-'' @ show_nat (nat (- i)) else show_nat (nat i))"

fun commas :: "string list \<Rightarrow> string" where
  "commas [] = []"
| "commas [x] = x"
| "commas (x # y # ys) = x @ '','' @ commas (y # ys)"

primrec sample_stringify :: "json \<Rightarrow> string" where
  "sample_stringify (JStr s) = quote s"
| "sample_stringify (JNum n) = show_int n"
| "sample_stringify (JArr xs) = ''['' @ commas (map sample_stringify xs) @ '']''"
| "sample_stringify (JObj kvs) =
     ''{'' @ commas (map (\<lambda>kv. quote (fst kv) @ '':'' @ snd kv)
                      (map (map_prod id sample_stringify) kvs)) @ ''}''"

definition sample_encrypt :: "string \<Rightarrow> string \<Rightarrow> string" where
  "sample_encrypt text key = btoa (''Salted__'' @ key @ text)"

definition sample_collaborators :: collaborators where
  "sample_collaborators =
     \<lparr>JSON_stringify = sample_stringify, AES_encrypt = sample_encrypt,
      VITE_APP_ENCRYPT_SECRET = ''s3cret''\<rparr>"

text \<open>The \<open>defaultValues\<close> of the two forms and the initial component states.\<close>

definition defaultValues :: FormValues where
  "defaultValues =
     \<lparr>environments = \<lparr>production = False, staging = False, development = False\<rparr>,
      locales = \<lparr>en_us = False, fr_fr = False, es = False\<rparr>,
      variant = [], entryUid = [], contentType = []\<rparr>"

definition initial_state :: app_state where
  "initial_state = \<lparr>formValues = defaultValues, formErrors = []\<rparr>"

definition defaultValues_host :: FormValues_host where
  "defaultValues_host =
     \<lparr>environments_host = \<lparr>production = False, staging = False, development = False\<rparr>,
      locales_host = \<lparr>en_us = False, fr_fr = False, es = False\<rparr>,
      variant_host = \<lparr>variant_id = 0, variant_label = ''Select Variant'', variant_value = []\<rparr>\<rparr>"

definition initial_state_host :: app_state_host where
  "initial_state_host =
     \<lparr>formValues_host = defaultValues_host, entryUid_host = [], contentType_host = [],
      stackAPI = [], formErrors_host = []\<rparr>"

text \<open>A filled-in form of each kind, and a sidebar widget.\<close>

definition filled_values :: FormValues where
  "filled_values =
     \<lparr>environments = \<lparr>production = True, staging = False, development = True\<rparr>,
      locales = \<lparr>en_us = False, fr_fr = True, es = False\<rparr>,
      variant = ''tech'', entryUid = ''blt42'', contentType = ''page''\<rparr>"

definition filled_state :: app_state where
  "filled_state = \<lparr>formValues = filled_values, formErrors = []\<rparr>"

definition filled_values_host :: FormValues_host where
  "filled_values_host =
     \<lparr>environments_host = \<lparr>production = True, staging = False, development = True\<rparr>,
      locales_host = \<lparr>en_us = False, fr_fr = True, es = False\<rparr>,
      variant_host =
        \<lparr>variant_id = 2, variant_label = ''Tech Enthusiasts'', variant_value = ''tech''\<rparr>\<rparr>"

definition sample_widget :: SidebarWidget where
  "sample_widget =
     \<lparr>entry_content_type_uid = Some ''page'', entry_data_uid = Some ''blt42'',
      stack_data_api_key = Some ''bltkey''\<rparr>"

text \<open>The filled-in host form before the SDK has answered, and after.\<close>

definition unready_state_host :: app_state_host where
  "unready_state_host = initial_state_host\<lparr>formValues_host := filled_values_host\<rparr>"

definition ready_state_host :: app_state_host where
  "ready_state_host = init_then (Some sample_widget) unready_state_host"

text \<open>The ready host form with everything chosen but the variant.\<close>

definition no_variant_state_host :: app_state_host where
  "no_variant_state_host =
     ready_state_host
       \<lparr>formValues_host := filled_values_host\<lparr>variant_host := variant_host defaultValues_host\<rparr>\<rparr>"

section \<open>Facts about the library functions and the handlers\<close>

lemma div3_step: "(5 + n) div 3 = Suc ((n + 2) div (3::nat))"
  by arith

lemma div3_fixed: "4 * ((n + 2) div 3) = n \<Longrightarrow> n = (0::nat)"
  by arith

lemma btoa_length: "length (btoa xs) = 4 * ((length xs + 2) div 3)"
proof (induction xs rule: btoa.induct)
  case 1
  show ?case by simp
next
  case (2 a)
  show ?case by (simp add: Let_def)
next
  case (3 a b)
  show ?case by (simp add: Let_def)
next
  case (4 a b c rest)
  then have "length (btoa rest) = 4 * ((length rest + 2) div 3)" by blast
  then show ?case by (simp add: Let_def div3_step)
qed

lemma btoa_fixed_iff: "btoa xs = xs \<longleftrightarrow> xs = []"
proof
  assume "btoa xs = xs"
  then have "length (btoa xs) = length xs" by (rule arg_cong)
  then have "4 * ((length xs + 2) div 3) = length xs" by (simp only: btoa_length)
  then have "length xs = 0" by (rule div3_fixed)
  then show "xs = []" by simp
next
  assume "xs = []"
  then show "btoa xs = xs" by simp
qed

lemmas schema_defs =
  refine_some_def string_min1_def some_Boolean_def entries_env_def entries_locale_def issue_def

lemma formSchema_issues_Nil_iff:
  "formSchema_issues d = [] \<longleftrightarrow>
     (production (environments d) \<or> staging (environments d) \<or> development (environments d))
     \<and> (en_us (locales d) \<or> fr_fr (locales d) \<or> es (locales d))
     \<and> variant d \<noteq> [] \<and> entryUid d \<noteq> [] \<and> contentType d \<noteq> []"
  by (auto simp: formSchema_issues_def schema_defs)

lemma safeParse_eq:
  "safeParse d = (if formSchema_issues d = [] then Inr d else Inl (formSchema_issues d))"
  by (simp add: safeParse_def Let_def)

lemma safeParse_Inr_iff: "safeParse d = Inr d' \<longleftrightarrow> formSchema_issues d = [] \<and> d' = d"
  by (auto simp: safeParse_eq)

lemma isl_safeParse_iff: "isl (safeParse d) \<longleftrightarrow> formSchema_issues d \<noteq> []"
  by (simp add: safeParse_eq)

lemma handleButtonClick_invalid:
  assumes "formSchema_issues (formValues s) \<noteq> []"
  shows "handleButtonClick c s =
    (s\<lparr>formErrors := map errorMessage (formSchema_issues (formValues s))\<rparr>,
     [GetValues, SafeParse (formValues s), ConsoleLogIssues (formSchema_issues (formValues s)),
      SetFormErrors (map errorMessage (formSchema_issues (formValues s)))])"
  unfolding handleButtonClick_def Let_def safeParse_eq using assms by simp

lemma handleButtonClick_valid:
  assumes "formSchema_issues (formValues s) = []"
  shows "handleButtonClick c s =
    (s\<lparr>formErrors := []\<rparr>,
     [GetValues, SafeParse (formValues s), SetFormErrors [], Stringify (result (formValues s)),
      Encrypt (JSON_stringify c (result (formValues s))) (VITE_APP_ENCRYPT_SECRET c),
      Btoa (AES_encrypt c (JSON_stringify c (result (formValues s))) (VITE_APP_ENCRYPT_SECRET c)),
      WindowOpen (''https://demo-graph.contentstackapps.com?data='' @
         btoa (AES_encrypt c (JSON_stringify c (result (formValues s))) (VITE_APP_ENCRYPT_SECRET c)))
         ''_blank''])"
  unfolding handleButtonClick_def Let_def safeParse_eq using assms by simp

lemma formSchema_host_issues_Nil_iff:
  "formSchema_host_issues d = [] \<longleftrightarrow>
     (production (environments_host d) \<or> staging (environments_host d)
        \<or> development (environments_host d))
     \<and> (en_us (locales_host d) \<or> fr_fr (locales_host d) \<or> es (locales_host d))
     \<and> variant_label (variant_host d) \<noteq> [] \<and> variant_value (variant_host d) \<noteq> []"
  by (auto simp: formSchema_host_issues_def schema_defs)

lemma safeParse_host_eq:
  "safeParse_host d =
     (if formSchema_host_issues d = [] then Inr d else Inl (formSchema_host_issues d))"
  by (simp add: safeParse_host_def Let_def)

lemma safeParse_host_Inr_iff:
  "safeParse_host d = Inr d' \<longleftrightarrow> formSchema_host_issues d = [] \<and> d' = d"
  by (auto simp: safeParse_host_eq)

lemma isl_safeParse_host_iff: "isl (safeParse_host d) \<longleftrightarrow> formSchema_host_issues d \<noteq> []"
  by (simp add: safeParse_host_eq)

lemma handleButtonClick_host_blocked:
  assumes "entryUid_host s = [] \<or> contentType_host s = [] \<or> stackAPI s = []"
  shows "handleButtonClick_host c s =
    (s, [Alert ''Entry Uid or Content type or Stack API could not be retrieved''])"
  unfolding handleButtonClick_host_def using assms by simp

lemma handleButtonClick_host_invalid:
  assumes "entryUid_host s \<noteq> []" "contentType_host s \<noteq> []" "stackAPI s \<noteq> []"
    and "formSchema_host_issues (formValues_host s) \<noteq> []"
  shows "handleButtonClick_host c s =
    (s\<lparr>formErrors_host := map errorMessage (formSchema_host_issues (formValues_host s))\<rparr>,
     [GetValues, ConsoleLogData (formValues_host s), SafeParse (formValues_host s),
      ConsoleLogIssues (formSchema_host_issues (formValues_host s)),
      SetFormErrors (map errorMessage (formSchema_host_issues (formValues_host s)))])"
  unfolding handleButtonClick_host_def Let_def safeParse_host_eq using assms by simp

lemma handleButtonClick_host_valid:
  assumes "entryUid_host s \<noteq> []" "contentType_host s \<noteq> []" "stackAPI s \<noteq> []"
    and "formSchema_host_issues (formValues_host s) = []"
  shows "handleButtonClick_host c s =
    (s\<lparr>formErrors_host := []\<rparr>,
     [GetValues, ConsoleLogData (formValues_host s), SafeParse (formValues_host s),
      SetFormErrors [], Stringify (result_host s (formValues_host s)),
      Encrypt (JSON_stringify c (result_host s (formValues_host s))) (VITE_APP_ENCRYPT_SECRET c),
      Btoa (AES_encrypt c (JSON_stringify c (result_host s (formValues_host s)))
              (VITE_APP_ENCRYPT_SECRET c)),
      WindowOpen (''https://demo-graph-refactored.contentstackapps.com/?data='' @
         btoa (AES_encrypt c (JSON_stringify c (result_host s (formValues_host s)))
                 (VITE_APP_ENCRYPT_SECRET c)))
         ''_blank''])"
  unfolding handleButtonClick_host_def Let_def safeParse_host_eq using assms by simp

lemmas trace_defs =
  window_opens_def payloads_def encryptions_def alerts_def steps_def

lemma helperText_environments:
  "formSchema_issues d \<noteq> [] \<Longrightarrow>
   helperText ''environments'' (map errorMessage (formSchema_issues d)) =
     (if production (environments d) \<or> staging (environments d) \<or> development (environments d)
      then None else Some ''Please select at least one environment'')"
  by (auto simp: helperText_def formSchema_issues_def schema_defs errorMessage_def path0_def)

lemma helperText_contentType:
  "formSchema_issues d \<noteq> [] \<Longrightarrow>
   helperText ''contentType'' (map errorMessage (formSchema_issues d)) =
     (if contentType d = [] then Some ''Content Type is required'' else None)"
  by (auto simp: helperText_def formSchema_issues_def schema_defs errorMessage_def path0_def)

lemma helperText_locales:
  "formSchema_issues d \<noteq> [] \<Longrightarrow>
   helperText ''locales'' (map errorMessage (formSchema_issues d)) =
     (if en_us (locales d) \<or> fr_fr (locales d) \<or> es (locales d)
      then None else Some ''Please select at least one locale'')"
  by (auto simp: helperText_def formSchema_issues_def schema_defs errorMessage_def path0_def)

lemma helperText_variant:
  "formSchema_issues d \<noteq> [] \<Longrightarrow>
   helperText ''variant'' (map errorMessage (formSchema_issues d)) =
     (if variant d = [] then Some ''Please select a variant'' else None)"
  by (auto simp: helperText_def formSchema_issues_def schema_defs errorMessage_def path0_def)

lemma helperText_entryUid:
  "formSchema_issues d \<noteq> [] \<Longrightarrow>
   helperText ''entryUid'' (map errorMessage (formSchema_issues d)) =
     (if entryUid d = [] then Some ''Entry UID is required'' else None)"
  by (auto simp: helperText_def formSchema_issues_def schema_defs errorMessage_def path0_def)

lemma helperText_host_environments:
  "formSchema_host_issues d \<noteq> [] \<Longrightarrow>
   helperText ''environments'' (map errorMessage (formSchema_host_issues d)) =
     (if production (environments_host d) \<or> staging (environments_host d)
         \<or> development (environments_host d)
      then None else Some ''Please select at least one environment'')"
  by (auto simp: helperText_def formSchema_host_issues_def schema_defs errorMessage_def path0_def)

lemma helperText_host_locales:
  "formSchema_host_issues d \<noteq> [] \<Longrightarrow>
   helperText ''locales'' (map errorMessage (formSchema_host_issues d)) =
     (if en_us (locales_host d) \<or> fr_fr (locales_host d) \<or> es (locales_host d)
      then None else Some ''Please select at least one locale'')"
  by (auto simp: helperText_def formSchema_host_issues_def schema_defs errorMessage_def path0_def)

lemma helperText_host_variant:
  "formSchema_host_issues d \<noteq> [] \<Longrightarrow>
   helperText ''variant'' (map errorMessage (formSchema_host_issues d)) =
     (if variant_label (variant_host d) = [] \<or> variant_value (variant_host d) = []
      then Some ''Variant is required'' else None)"
  by (auto simp: helperText_def formSchema_host_issues_def schema_defs errorMessage_def path0_def)

lemma paths_of_formSchema_issues:
  "set (map path (map errorMessage (formSchema_issues d))) \<subseteq>
     {Some ''environments'', Some ''locales'', Some ''variant'', Some ''entryUid'',
      Some ''contentType''}"
  by (auto simp: formSchema_issues_def schema_defs errorMessage_def path0_def split: if_splits)

lemma paths_of_formSchema_host_issues:
  "set (map path (map errorMessage (formSchema_host_issues d))) \<subseteq>
     {Some ''environments'', Some ''locales'', Some ''variant''}"
  by (auto simp: formSchema_host_issues_def schema_defs errorMessage_def path0_def
      split: if_splits)

lemma count_list_filter:
  "count_list (filter P xs) x = (if P x then count_list xs x else 0)"
  by (induction xs) auto

lemma selected_keys_env:
  "selected_keys (entries_env e) =
     (if production e then [''production''] else [])
     @ (if staging e then [''staging''] else [])
     @ (if development e then [''development''] else [])"
  by (simp add: selected_keys_def entries_env_def)

lemma selected_keys_locale:
  "selected_keys (entries_locale l) =
     (if en_us l then [''en-us''] else [])
     @ (if fr_fr l then [''fr-fr''] else [])
     @ (if es l then [''es''] else [])"
  by (simp add: selected_keys_def entries_locale_def)

subsection \<open>The sample inputs, evaluated\<close>

lemmas sample_defs =
  initial_state_def defaultValues_def filled_state_def filled_values_def
  initial_state_host_def defaultValues_host_def filled_values_host_def
  unready_state_host_def ready_state_host_def no_variant_state_host_def
  sample_widget_def init_then_def or_empty_def

lemmas valid_simps =
  isl_safeParse_iff safeParse_Inr_iff formSchema_issues_Nil_iff
  isl_safeParse_host_iff safeParse_host_Inr_iff formSchema_host_issues_Nil_iff

lemma sample_ciphertext_nonempty: "ciphertext sample_collaborators r \<noteq> []"
  by (simp add: ciphertext_def sample_collaborators_def sample_encrypt_def Let_def)

lemma sample_ciphertext:
  "ciphertext sample_collaborators (result filled_values) =
     ''U2FsdGVkX19zM2NyZXR7ImVudmlyb25tZW50cyI6WyJwcm9kdWN0aW9uIiwiZGV2ZWxvcG1lbnQiXSwibG9jYWxlcyI6WyJmci1mciJdLCJ2YXJpYW50IjoidGVjaCIsImVudHJ5VWlkIjoiYmx0NDIiLCJjb250ZW50VHlwZSI6InBhZ2UifQ==''"
  by code_simp

lemma sample_data:
  "btoa (ciphertext sample_collaborators (result filled_values)) =
     ''VTJGc2RHVmtYMTl6TTJOeVpYUjdJbVZ1ZG1seWIyNXRaVzUwY3lJNld5SndjbTlrZFdOMGFXOXVJaXdpWkdWMlpXeHZjRzFsYm5RaVhTd2liRzlqWVd4bGN5STZXeUptY2kxbWNpSmRMQ0oyWVhKcFlXNTBJam9pZEdWamFDSXNJbVZ1ZEhKNVZXbGtJam9pWW14ME5ESWlMQ0pqYjI1MFpXNTBWSGx3WlNJNkluQmhaMlVpZlE9PQ==''"
  by code_simp

section \<open>The claims\<close>

text \<open>
  Claim C1, as the code has it.  In the stand-alone form, every form state that passes the
  schema makes one click of Submit hand the selections to \<open>JSON.stringify\<close>, encrypt that
  text with the secret, and open exactly one tab, target \<open>_blank\<close>, at the address of the
  visualisation tool with the Base64 of the ciphertext after \<open>?data=\<close>.  In the
  host-integrated form the same holds for every form state that passes the schema while
  the entry uid, the content type and the stack API key are all non-empty.
\<close>

theorem valid_ready_submission_opens_one_tab:
  "(safeParse (formValues s) = Inr (formValues s) \<longrightarrow>
      payloads (snd (handleButtonClick c s)) = [result (formValues s)]
      \<and> encryptions (snd (handleButtonClick c s)) =
          [(JSON_stringify c (result (formValues s)), VITE_APP_ENCRYPT_SECRET c)]
      \<and> window_opens (snd (handleButtonClick c s)) =
          [(''https://demo-graph.contentstackapps.com'' @ ''?data=''
              @ btoa (AES_encrypt c (JSON_stringify c (result (formValues s)))
                        (VITE_APP_ENCRYPT_SECRET c)),
            ''_blank'')])
   \<and> (entryUid_host h \<noteq> [] \<and> contentType_host h \<noteq> [] \<and> stackAPI h \<noteq> []
        \<and> safeParse_host (formValues_host h) = Inr (formValues_host h) \<longrightarrow>
      payloads (snd (handleButtonClick_host c h)) = [result_host h (formValues_host h)]
      \<and> encryptions (snd (handleButtonClick_host c h)) =
          [(JSON_stringify c (result_host h (formValues_host h)), VITE_APP_ENCRYPT_SECRET c)]
      \<and> window_opens (snd (handleButtonClick_host c h)) =
          [(''https://demo-graph-refactored.contentstackapps.com/'' @ ''?data=''
              @ btoa (AES_encrypt c (JSON_stringify c (result_host h (formValues_host h)))
                        (VITE_APP_ENCRYPT_SECRET c)),
            ''_blank'')])"
proof (intro conjI impI)
  assume "safeParse (formValues s) = Inr (formValues s)"
  then have ok: "formSchema_issues (formValues s) = []"
    by (simp add: safeParse_Inr_iff)
  note click = handleButtonClick_valid [OF ok, of c]
  show "payloads (snd (handleButtonClick c s)) = [result (formValues s)]"
    by (simp add: click payloads_def)
  show "encryptions (snd (handleButtonClick c s)) =
          [(JSON_stringify c (result (formValues s)), VITE_APP_ENCRYPT_SECRET c)]"
    by (simp add: click encryptions_def)
  show "window_opens (snd (handleButtonClick c s)) =
          [(''https://demo-graph.contentstackapps.com'' @ ''?data=''
              @ btoa (AES_encrypt c (JSON_stringify c (result (formValues s)))
                        (VITE_APP_ENCRYPT_SECRET c)),
            ''_blank'')]"
    by (simp add: click window_opens_def)
next
  assume "entryUid_host h \<noteq> [] \<and> contentType_host h \<noteq> [] \<and> stackAPI h \<noteq> []
        \<and> safeParse_host (formValues_host h) = Inr (formValues_host h)"
  then have ready: "entryUid_host h \<noteq> []" "contentType_host h \<noteq> []" "stackAPI h \<noteq> []"
    and ok: "formSchema_host_issues (formValues_host h) = []"
    by (simp_all add: safeParse_host_Inr_iff)
  note click = handleButtonClick_host_valid [OF ready ok, of c]
  show "payloads (snd (handleButtonClick_host c h)) = [result_host h (formValues_host h)]"
    by (simp add: click payloads_def)
  show "encryptions (snd (handleButtonClick_host c h)) =
          [(JSON_stringify c (result_host h (formValues_host h)), VITE_APP_ENCRYPT_SECRET c)]"
    by (simp add: click encryptions_def)
  show "window_opens (snd (handleButtonClick_host c h)) =
          [(''https://demo-graph-refactored.contentstackapps.com/'' @ ''?data=''
              @ btoa (AES_encrypt c (JSON_stringify c (result_host h (formValues_host h)))
                        (VITE_APP_ENCRYPT_SECRET c)),
            ''_blank'')]"
    by (simp add: click window_opens_def)
qed

text \<open>Both forms, filled in and ready, open one tab.\<close>

theorem valid_ready_submission_opens_one_tab_witness:
  "length (window_opens (snd (handleButtonClick sample_collaborators filled_state))) = 1
   \<and> length (window_opens (snd (handleButtonClick_host sample_collaborators ready_state_host))) = 1"
proof -
  have ok: "safeParse (formValues filled_state) = Inr (formValues filled_state)"
    by (simp add: valid_simps sample_defs)
  have ok_host: "entryUid_host ready_state_host \<noteq> [] \<and> contentType_host ready_state_host \<noteq> []
      \<and> stackAPI ready_state_host \<noteq> []
      \<and> safeParse_host (formValues_host ready_state_host) = Inr (formValues_host ready_state_host)"
    by (simp add: valid_simps sample_defs)
  from valid_ready_submission_opens_one_tab
      [of filled_state sample_collaborators ready_state_host] ok ok_host
  have "window_opens (snd (handleButtonClick sample_collaborators filled_state)) =
          [(''https://demo-graph.contentstackapps.com'' @ ''?data=''
              @ btoa (AES_encrypt sample_collaborators
                        (JSON_stringify sample_collaborators (result (formValues filled_state)))
                        (VITE_APP_ENCRYPT_SECRET sample_collaborators)),
            ''_blank'')]"
    and "window_opens (snd (handleButtonClick_host sample_collaborators ready_state_host)) =
          [(''https://demo-graph-refactored.contentstackapps.com/'' @ ''?data=''
              @ btoa (AES_encrypt sample_collaborators
                        (JSON_stringify sample_collaborators
                           (result_host ready_state_host (formValues_host ready_state_host)))
                        (VITE_APP_ENCRYPT_SECRET sample_collaborators)),
            ''_blank'')]"
    by blast+
  then show ?thesis by simp
qed

text \<open>
  As first stated, for every form state that passes the schema, the claim fails: in the
  host-integrated form such a state opens no tab while the host values are still empty.
\<close>

theorem valid_form_without_host_values_opens_no_tab:
  "safeParse_host (formValues_host unready_state_host) = Inr (formValues_host unready_state_host)
   \<and> window_opens (snd (handleButtonClick_host sample_collaborators unready_state_host)) = []"
  by (simp add: valid_simps sample_defs handleButtonClick_host_blocked window_opens_def)

text \<open>
  Claim C2.  In the stand-alone form, validation of a Submit click fails if and only if no
  environment is selected, or no locale is selected, or the variant, the entry uid or the
  content type is empty.  When it fails, the error list is non-empty, each field shows its
  message exactly when that field is the one at fault, and no tab is opened; otherwise
  validation succeeds.
\<close>

theorem validation_fails_iff_a_field_is_missing:
  "(isl (safeParse (formValues s)) \<longleftrightarrow>
      \<not> (production (environments (formValues s)) \<or> staging (environments (formValues s))
           \<or> development (environments (formValues s)))
      \<or> \<not> (en_us (locales (formValues s)) \<or> fr_fr (locales (formValues s))
           \<or> es (locales (formValues s)))
      \<or> variant (formValues s) = []
      \<or> entryUid (formValues s) = []
      \<or> contentType (formValues s) = [])
   \<and> (isl (safeParse (formValues s)) \<longrightarrow>
        formErrors (fst (handleButtonClick c s)) \<noteq> []
        \<and> helperText ''environments'' (formErrors (fst (handleButtonClick c s))) =
            (if production (environments (formValues s)) \<or> staging (environments (formValues s))
                \<or> development (environments (formValues s))
             then None else Some ''Please select at least one environment'')
        \<and> helperText ''locales'' (formErrors (fst (handleButtonClick c s))) =
            (if en_us (locales (formValues s)) \<or> fr_fr (locales (formValues s))
                \<or> es (locales (formValues s))
             then None else Some ''Please select at least one locale'')
        \<and> helperText ''variant'' (formErrors (fst (handleButtonClick c s))) =
            (if variant (formValues s) = [] then Some ''Please select a variant'' else None)
        \<and> helperText ''entryUid'' (formErrors (fst (handleButtonClick c s))) =
            (if entryUid (formValues s) = [] then Some ''Entry UID is required'' else None)
        \<and> helperText ''contentType'' (formErrors (fst (handleButtonClick c s))) =
            (if contentType (formValues s) = [] then Some ''Content Type is required'' else None)
        \<and> window_opens (snd (handleButtonClick c s)) = [])
   \<and> (\<not> isl (safeParse (formValues s)) \<longrightarrow>
        safeParse (formValues s) = Inr (formValues s))"
proof (intro conjI impI)
  show "isl (safeParse (formValues s)) \<longleftrightarrow>
      \<not> (production (environments (formValues s)) \<or> staging (environments (formValues s))
           \<or> development (environments (formValues s)))
      \<or> \<not> (en_us (locales (formValues s)) \<or> fr_fr (locales (formValues s))
           \<or> es (locales (formValues s)))
      \<or> variant (formValues s) = []
      \<or> entryUid (formValues s) = []
      \<or> contentType (formValues s) = []"
    unfolding isl_safeParse_iff formSchema_issues_Nil_iff by blast
next
  assume "\<not> isl (safeParse (formValues s))"
  then show "safeParse (formValues s) = Inr (formValues s)"
    by (simp add: safeParse_eq split: if_splits)
next
  assume "isl (safeParse (formValues s))"
  then have bad: "formSchema_issues (formValues s) \<noteq> []"
    by (simp add: isl_safeParse_iff)
  note click = handleButtonClick_invalid [OF bad, of c]
  have errs: "formErrors (fst (handleButtonClick c s)) =
      map errorMessage (formSchema_issues (formValues s))"
    by (simp add: click)
  show "formErrors (fst (handleButtonClick c s)) \<noteq> []"
    using bad by (simp add: errs)
  show "window_opens (snd (handleButtonClick c s)) = []"
    by (simp add: click window_opens_def)
  show "helperText ''environments'' (formErrors (fst (handleButtonClick c s))) =
            (if production (environments (formValues s)) \<or> staging (environments (formValues s))
                \<or> development (environments (formValues s))
             then None else Some ''Please select at least one environment'')"
    by (simp only: errs helperText_environments [OF bad])
  show "helperText ''locales'' (formErrors (fst (handleButtonClick c s))) =
            (if en_us (locales (formValues s)) \<or> fr_fr (locales (formValues s))
                \<or> es (locales (formValues s))
             then None else Some ''Please select at least one locale'')"
    by (simp only: errs helperText_locales [OF bad])
  show "helperText ''variant'' (formErrors (fst (handleButtonClick c s))) =
            (if variant (formValues s) = [] then Some ''Please select a variant'' else None)"
    by (simp only: errs helperText_variant [OF bad])
  show "helperText ''entryUid'' (formErrors (fst (handleButtonClick c s))) =
            (if entryUid (formValues s) = [] then Some ''Entry UID is required'' else None)"
    by (simp only: errs helperText_entryUid [OF bad])
  show "helperText ''contentType'' (formErrors (fst (handleButtonClick c s))) =
            (if contentType (formValues s) = [] then Some ''Content Type is required'' else None)"
    by (simp only: errs helperText_contentType [OF bad])
qed

text \<open>The form as loaded fails and shows the variant message; the filled-in form passes.\<close>

theorem validation_fails_iff_a_field_is_missing_witness:
  "isl (safeParse (formValues initial_state))
   \<and> helperText ''variant''
       (formErrors (fst (handleButtonClick sample_collaborators initial_state))) =
       Some ''Please select a variant''
   \<and> window_opens (snd (handleButtonClick sample_collaborators initial_state)) = []
   \<and> safeParse (formValues filled_state) = Inr (formValues filled_state)"
  using validation_fails_iff_a_field_is_missing [of initial_state sample_collaborators]
    validation_fails_iff_a_field_is_missing [of filled_state sample_collaborators]
  by (simp add: sample_defs)

text \<open>
  Claim C3.  The object given to \<open>JSON.stringify\<close> lists under \<open>environments\<close> the
  selected environment names in the order production, staging, development, under
  \<open>locales\<close> the selected locale names in the order en-us, fr-fr, es, and carries the
  variant, the entry uid and the content type (and, in the host-integrated form, the stack
  API key) as they are; its serialisation is the text that is encrypted.
\<close>

theorem payload_lists_selected_names_in_order:
  "(safeParse (formValues s) = Inr (formValues s) \<longrightarrow>
      payloads (snd (handleButtonClick c s)) =
        [JObj [(''environments'',
                  JArr (map JStr
                    ((if production (environments (formValues s)) then [''production''] else [])
                     @ (if staging (environments (formValues s)) then [''staging''] else [])
                     @ (if development (environments (formValues s))
                        then [''development''] else [])))),
               (''locales'',
                  JArr (map JStr
                    ((if en_us (locales (formValues s)) then [''en-us''] else [])
                     @ (if fr_fr (locales (formValues s)) then [''fr-fr''] else [])
                     @ (if es (locales (formValues s)) then [''es''] else [])))),
               (''variant'', JStr (variant (formValues s))),
               (''entryUid'', JStr (entryUid (formValues s))),
               (''contentType'', JStr (contentType (formValues s)))]]
      \<and> encryptions (snd (handleButtonClick c s)) =
          map (\<lambda>r. (JSON_stringify c r, VITE_APP_ENCRYPT_SECRET c))
            (payloads (snd (handleButtonClick c s))))
   \<and> (entryUid_host h \<noteq> [] \<and> contentType_host h \<noteq> [] \<and> stackAPI h \<noteq> []
        \<and> safeParse_host (formValues_host h) = Inr (formValues_host h) \<longrightarrow>
      payloads (snd (handleButtonClick_host c h)) =
        [JObj [(''environments'',
                  JArr (map JStr
                    ((if production (environments_host (formValues_host h))
                      then [''production''] else [])
                     @ (if staging (environments_host (formValues_host h))
                        then [''staging''] else [])
                     @ (if development (environments_host (formValues_host h))
                        then [''development''] else [])))),
               (''locales'',
                  JArr (map JStr
                    ((if en_us (locales_host (formValues_host h)) then [''en-us''] else [])
                     @ (if fr_fr (locales_host (formValues_host h)) then [''fr-fr''] else [])
                     @ (if es (locales_host (formValues_host h)) then [''es''] else [])))),
               (''variant'',
                  JObj [(''id'', JNum (variant_id (variant_host (formValues_host h)))),
                        (''label'', JStr (variant_label (variant_host (formValues_host h)))),
                        (''value'', JStr (variant_value (variant_host (formValues_host h))))]),
               (''entryUid'', JStr (entryUid_host h)),
               (''contentType'', JStr (contentType_host h)),
               (''stackAPI'', JStr (stackAPI h))]]
      \<and> encryptions (snd (handleButtonClick_host c h)) =
          map (\<lambda>r. (JSON_stringify c r, VITE_APP_ENCRYPT_SECRET c))
            (payloads (snd (handleButtonClick_host c h))))"
proof (intro conjI impI)
  assume "safeParse (formValues s) = Inr (formValues s)"
  then have ok: "formSchema_issues (formValues s) = []"
    by (simp add: safeParse_Inr_iff)
  note click = handleButtonClick_valid [OF ok, of c]
  show "payloads (snd (handleButtonClick c s)) =
        [JObj [(''environments'',
                  JArr (map JStr
                    ((if production (environments (formValues s)) then [''production''] else [])
                     @ (if staging (environments (formValues s)) then [''staging''] else [])
                     @ (if development (environments (formValues s))
                        then [''development''] else [])))),
               (''locales'',
                  JArr (map JStr
                    ((if en_us (locales (formValues s)) then [''en-us''] else [])
                     @ (if fr_fr (locales (formValues s)) then [''fr-fr''] else [])
                     @ (if es (locales (formValues s)) then [''es''] else [])))),
               (''variant'', JStr (variant (formValues s))),
               (''entryUid'', JStr (entryUid (formValues s))),
               (''contentType'', JStr (contentType (formValues s)))]]"
    by (simp add: click payloads_def result_def selected_keys_env selected_keys_locale)
  show "encryptions (snd (handleButtonClick c s)) =
          map (\<lambda>r. (JSON_stringify c r, VITE_APP_ENCRYPT_SECRET c))
            (payloads (snd (handleButtonClick c s)))"
    by (simp add: click payloads_def encryptions_def)
next
  assume "entryUid_host h \<noteq> [] \<and> contentType_host h \<noteq> [] \<and> stackAPI h \<noteq> []
        \<and> safeParse_host (formValues_host h) = Inr (formValues_host h)"
  then have ready: "entryUid_host h \<noteq> []" "contentType_host h \<noteq> []" "stackAPI h \<noteq> []"
    and ok: "formSchema_host_issues (formValues_host h) = []"
    by (simp_all add: safeParse_host_Inr_iff)
  note click = handleButtonClick_host_valid [OF ready ok, of c]
  show "payloads (snd (handleButtonClick_host c h)) =
        [JObj [(''environments'',
                  JArr (map JStr
                    ((if production (environments_host (formValues_host h))
                      then [''production''] else [])
                     @ (if staging (environments_host (formValues_host h))
                        then [''staging''] else [])
                     @ (if development (environments_host (formValues_host h))
                        then [''development''] else [])))),
               (''locales'',
                  JArr (map JStr
                    ((if en_us (locales_host (formValues_host h)) then [''en-us''] else [])
                     @ (if fr_fr (locales_host (formValues_host h)) then [''fr-fr''] else [])
                     @ (if es (locales_host (formValues_host h)) then [''es''] else [])))),
               (''variant'',
                  JObj [(''id'', JNum (variant_id (variant_host (formValues_host h)))),
                        (''label'', JStr (variant_label (variant_host (formValues_host h)))),
                        (''value'', JStr (variant_value (variant_host (formValues_host h))))]),
               (''entryUid'', JStr (entryUid_host h)),
               (''contentType'', JStr (contentType_host h)),
               (''stackAPI'', JStr (stackAPI h))]]"
    by (simp add: click payloads_def result_host_def selected_keys_env selected_keys_locale)
  show "encryptions (snd (handleButtonClick_host c h)) =
          map (\<lambda>r. (JSON_stringify c r, VITE_APP_ENCRYPT_SECRET c))
            (payloads (snd (handleButtonClick_host c h)))"
    by (simp add: click payloads_def encryptions_def)
qed

text \<open>The payloads of the two filled-in forms.\<close>

theorem payload_lists_selected_names_in_order_witness:
  "payloads (snd (handleButtonClick sample_collaborators filled_state)) =
     [JObj [(''environments'', JArr [JStr ''production'', JStr ''development'']),
            (''locales'', JArr [JStr ''fr-fr'']),
            (''variant'', JStr ''tech''),
            (''entryUid'', JStr ''blt42''),
            (''contentType'', JStr ''page'')]]
   \<and> payloads (snd (handleButtonClick_host sample_collaborators ready_state_host)) =
     [JObj [(''environments'', JArr [JStr ''production'', JStr ''development'']),
            (''locales'', JArr [JStr ''fr-fr'']),
            (''variant'',
               JObj [(''id'', JNum 2), (''label'', JStr ''Tech Enthusiasts''),
                     (''value'', JStr ''tech'')]),
            (''entryUid'', JStr ''blt42''),
            (''contentType'', JStr ''page''),
            (''stackAPI'', JStr ''bltkey'')]]"
  using payload_lists_selected_names_in_order
    [of filled_state sample_collaborators ready_state_host]
  by (simp add: valid_simps sample_defs)

text \<open>
  Claim C4.  The steps of a submission that occur, occur in the order validate, serialise,
  encrypt, redirect; a submission whose validation fails (or, in the host-integrated form,
  one that is blocked before validation) serialises nothing, encrypts nothing and opens no
  tab.
\<close>

theorem steps_in_order_and_only_after_validation:
  "steps (snd (handleButtonClick c s)) =
     (if isl (safeParse (formValues s)) then [Validate]
      else [Validate, Serialize, Encipher, Redirect])
   \<and> (isl (safeParse (formValues s)) \<longrightarrow>
        payloads (snd (handleButtonClick c s)) = []
        \<and> encryptions (snd (handleButtonClick c s)) = []
        \<and> window_opens (snd (handleButtonClick c s)) = [])
   \<and> steps (snd (handleButtonClick_host c h)) =
     (if entryUid_host h = [] \<or> contentType_host h = [] \<or> stackAPI h = [] then []
      else if isl (safeParse_host (formValues_host h)) then [Validate]
      else [Validate, Serialize, Encipher, Redirect])
   \<and> (entryUid_host h = [] \<or> contentType_host h = [] \<or> stackAPI h = []
        \<or> isl (safeParse_host (formValues_host h)) \<longrightarrow>
        payloads (snd (handleButtonClick_host c h)) = []
        \<and> encryptions (snd (handleButtonClick_host c h)) = []
        \<and> window_opens (snd (handleButtonClick_host c h)) = [])"
proof -
  have standalone: "steps (snd (handleButtonClick c s)) =
     (if isl (safeParse (formValues s)) then [Validate]
      else [Validate, Serialize, Encipher, Redirect])
   \<and> (isl (safeParse (formValues s)) \<longrightarrow>
        payloads (snd (handleButtonClick c s)) = []
        \<and> encryptions (snd (handleButtonClick c s)) = []
        \<and> window_opens (snd (handleButtonClick c s)) = [])"
  proof (cases "formSchema_issues (formValues s) = []")
    case True
    then show ?thesis
      by (simp add: handleButtonClick_valid isl_safeParse_iff trace_defs)
  next
    case False
    then show ?thesis
      by (simp add: handleButtonClick_invalid isl_safeParse_iff trace_defs)
  qed
  have host: "steps (snd (handleButtonClick_host c h)) =
     (if entryUid_host h = [] \<or> contentType_host h = [] \<or> stackAPI h = [] then []
      else if isl (safeParse_host (formValues_host h)) then [Validate]
      else [Validate, Serialize, Encipher, Redirect])
   \<and> (entryUid_host h = [] \<or> contentType_host h = [] \<or> stackAPI h = []
        \<or> isl (safeParse_host (formValues_host h)) \<longrightarrow>
        payloads (snd (handleButtonClick_host c h)) = []
        \<and> encryptions (snd (handleButtonClick_host c h)) = []
        \<and> window_opens (snd (handleButtonClick_host c h)) = [])"
  proof (cases "entryUid_host h = [] \<or> contentType_host h = [] \<or> stackAPI h = []")
    case True
    then show ?thesis
      by (simp add: handleButtonClick_host_blocked trace_defs)
  next
    case ready: False
    show ?thesis
    proof (cases "formSchema_host_issues (formValues_host h) = []")
      case True
      with ready show ?thesis
        by (simp add: handleButtonClick_host_valid isl_safeParse_host_iff trace_defs)
    next
      case False
      with ready show ?thesis
        by (simp add: handleButtonClick_host_invalid isl_safeParse_host_iff trace_defs)
    qed
  qed
  from standalone host show ?thesis by blast
qed

text \<open>A passing, a failing and a blocked submission.\<close>

theorem steps_in_order_and_only_after_validation_witness:
  "steps (snd (handleButtonClick sample_collaborators filled_state)) =
     [Validate, Serialize, Encipher, Redirect]
   \<and> steps (snd (handleButtonClick sample_collaborators initial_state)) = [Validate]
   \<and> window_opens (snd (handleButtonClick sample_collaborators initial_state)) = []
   \<and> steps (snd (handleButtonClick_host sample_collaborators ready_state_host)) =
     [Validate, Serialize, Encipher, Redirect]
   \<and> steps (snd (handleButtonClick_host sample_collaborators unready_state_host)) = []
   \<and> window_opens (snd (handleButtonClick_host sample_collaborators unready_state_host)) = []"
  using steps_in_order_and_only_after_validation
      [of sample_collaborators filled_state ready_state_host]
    steps_in_order_and_only_after_validation
      [of sample_collaborators initial_state unready_state_host]
  by (simp add: valid_simps sample_defs)

text \<open>
  Claim C5, as the code has it.  A submission that fails schema validation is reported to
  the user by inline error text only: the error list is set to the messages of the issues,
  every entry of it has the name of a field under which the form renders helper text, each
  such field shows its own message exactly when it is the one at fault, and the only other
  trace the submission leaves outside the component is on the console.  In the
  host-integrated form a submission that is blocked because a host value is empty is
  reported by an alert instead, and leaves the component state, the inline errors included,
  as it was.
\<close>

theorem failures_shown_inline_or_by_alert:
  "(isl (safeParse (formValues s)) \<longrightarrow>
      formErrors (fst (handleButtonClick c s)) = map errorMessage (formSchema_issues (formValues s))
      \<and> formErrors (fst (handleButtonClick c s)) \<noteq> []
      \<and> set (map path (formErrors (fst (handleButtonClick c s)))) \<subseteq>
          {Some ''environments'', Some ''locales'', Some ''variant'', Some ''entryUid'',
           Some ''contentType''}
      \<and> helperText ''environments'' (formErrors (fst (handleButtonClick c s))) =
          (if production (environments (formValues s)) \<or> staging (environments (formValues s))
              \<or> development (environments (formValues s))
           then None else Some ''Please select at least one environment'')
      \<and> helperText ''locales'' (formErrors (fst (handleButtonClick c s))) =
          (if en_us (locales (formValues s)) \<or> fr_fr (locales (formValues s))
              \<or> es (locales (formValues s))
           then None else Some ''Please select at least one locale'')
      \<and> helperText ''variant'' (formErrors (fst (handleButtonClick c s))) =
          (if variant (formValues s) = [] then Some ''Please select a variant'' else None)
      \<and> helperText ''entryUid'' (formErrors (fst (handleButtonClick c s))) =
          (if entryUid (formValues s) = [] then Some ''Entry UID is required'' else None)
      \<and> helperText ''contentType'' (formErrors (fst (handleButtonClick c s))) =
          (if contentType (formValues s) = [] then Some ''Content Type is required'' else None)
      \<and> filter external (snd (handleButtonClick c s)) =
          [ConsoleLogIssues (formSchema_issues (formValues s))])
   \<and> (entryUid_host h \<noteq> [] \<and> contentType_host h \<noteq> [] \<and> stackAPI h \<noteq> []
        \<and> isl (safeParse_host (formValues_host h)) \<longrightarrow>
      formErrors_host (fst (handleButtonClick_host c h)) =
          map errorMessage (formSchema_host_issues (formValues_host h))
      \<and> formErrors_host (fst (handleButtonClick_host c h)) \<noteq> []
      \<and> set (map path (formErrors_host (fst (handleButtonClick_host c h)))) \<subseteq>
          {Some ''environments'', Some ''locales'', Some ''variant''}
      \<and> helperText ''environments'' (formErrors_host (fst (handleButtonClick_host c h))) =
          (if production (environments_host (formValues_host h))
              \<or> staging (environments_host (formValues_host h))
              \<or> development (environments_host (formValues_host h))
           then None else Some ''Please select at least one environment'')
      \<and> helperText ''locales'' (formErrors_host (fst (handleButtonClick_host c h))) =
          (if en_us (locales_host (formValues_host h)) \<or> fr_fr (locales_host (formValues_host h))
              \<or> es (locales_host (formValues_host h))
           then None else Some ''Please select at least one locale'')
      \<and> helperText ''variant'' (formErrors_host (fst (handleButtonClick_host c h))) =
          (if variant_label (variant_host (formValues_host h)) = []
              \<or> variant_value (variant_host (formValues_host h)) = []
           then Some ''Variant is required'' else None)
      \<and> filter external (snd (handleButtonClick_host c h)) =
          [ConsoleLogData (formValues_host h),
           ConsoleLogIssues (formSchema_host_issues (formValues_host h))])
   \<and> (entryUid_host h = [] \<or> contentType_host h = [] \<or> stackAPI h = [] \<longrightarrow>
      fst (handleButtonClick_host c h) = h
      \<and> snd (handleButtonClick_host c h) =
          [Alert ''Entry Uid or Content type or Stack API could not be retrieved''])"
proof (intro conjI impI)
  assume "isl (safeParse (formValues s))"
  then have bad: "formSchema_issues (formValues s) \<noteq> []"
    by (simp add: isl_safeParse_iff)
  note click = handleButtonClick_invalid [OF bad, of c]
  show errs: "formErrors (fst (handleButtonClick c s)) =
      map errorMessage (formSchema_issues (formValues s))"
    by (simp add: click)
  show "formErrors (fst (handleButtonClick c s)) \<noteq> []"
    using bad by (simp add: errs)
  show "set (map path (formErrors (fst (handleButtonClick c s)))) \<subseteq>
          {Some ''environments'', Some ''locales'', Some ''variant'', Some ''entryUid'',
           Some ''contentType''}"
    unfolding errs by (rule paths_of_formSchema_issues)
  show "helperText ''environments'' (formErrors (fst (handleButtonClick c s))) =
          (if production (environments (formValues s)) \<or> staging (environments (formValues s))
              \<or> development (environments (formValues s))
           then None else Some ''Please select at least one environment'')"
    by (simp only: errs helperText_environments [OF bad])
  show "helperText ''locales'' (formErrors (fst (handleButtonClick c s))) =
          (if en_us (locales (formValues s)) \<or> fr_fr (locales (formValues s))
              \<or> es (locales (formValues s))
           then None else Some ''Please select at least one locale'')"
    by (simp only: errs helperText_locales [OF bad])
  show "helperText ''variant'' (formErrors (fst (handleButtonClick c s))) =
          (if variant (formValues s) = [] then Some ''Please select a variant'' else None)"
    by (simp only: errs helperText_variant [OF bad])
  show "helperText ''entryUid'' (formErrors (fst (handleButtonClick c s))) =
          (if entryUid (formValues s) = [] then Some ''Entry UID is required'' else None)"
    by (simp only: errs helperText_entryUid [OF bad])
  show "helperText ''contentType'' (formErrors (fst (handleButtonClick c s))) =
          (if contentType (formValues s) = [] then Some ''Content Type is required'' else None)"
    by (simp only: errs helperText_contentType [OF bad])
  show "filter external (snd (handleButtonClick c s)) =
          [ConsoleLogIssues (formSchema_issues (formValues s))]"
    by (simp add: click)
next
  assume "entryUid_host h \<noteq> [] \<and> contentType_host h \<noteq> [] \<and> stackAPI h \<noteq> []
        \<and> isl (safeParse_host (formValues_host h))"
  then have ready: "entryUid_host h \<noteq> []" "contentType_host h \<noteq> []" "stackAPI h \<noteq> []"
    and bad: "formSchema_host_issues (formValues_host h) \<noteq> []"
    by (simp_all add: isl_safeParse_host_iff)
  note click = handleButtonClick_host_invalid [OF ready bad, of c]
  show errs: "formErrors_host (fst (handleButtonClick_host c h)) =
      map errorMessage (formSchema_host_issues (formValues_host h))"
    by (simp add: click)
  show "formErrors_host (fst (handleButtonClick_host c h)) \<noteq> []"
    using bad by (simp add: errs)
  show "set (map path (formErrors_host (fst (handleButtonClick_host c h)))) \<subseteq>
          {Some ''environments'', Some ''locales'', Some ''variant''}"
    unfolding errs by (rule paths_of_formSchema_host_issues)
  show "helperText ''environments'' (formErrors_host (fst (handleButtonClick_host c h))) =
          (if production (environments_host (formValues_host h))
              \<or> staging (environments_host (formValues_host h))
              \<or> development (environments_host (formValues_host h))
           then None else Some ''Please select at least one environment'')"
    by (simp only: errs helperText_host_environments [OF bad])
  show "helperText ''locales'' (formErrors_host (fst (handleButtonClick_host c h))) =
          (if en_us (locales_host (formValues_host h)) \<or> fr_fr (locales_host (formValues_host h))
              \<or> es (locales_host (formValues_host h))
           then None else Some ''Please select at least one locale'')"
    by (simp only: errs helperText_host_locales [OF bad])
  show "helperText ''variant'' (formErrors_host (fst (handleButtonClick_host c h))) =
          (if variant_label (variant_host (formValues_host h)) = []
              \<or> variant_value (variant_host (formValues_host h)) = []
           then Some ''Variant is required'' else None)"
    by (simp only: errs helperText_host_variant [OF bad])
  show "filter external (snd (handleButtonClick_host c h)) =
          [ConsoleLogData (formValues_host h),
           ConsoleLogIssues (formSchema_host_issues (formValues_host h))]"
    by (simp add: click)
next
  assume blocked: "entryUid_host h = [] \<or> contentType_host h = [] \<or> stackAPI h = []"
  show "fst (handleButtonClick_host c h) = h"
    by (simp add: handleButtonClick_host_blocked [OF blocked])
  show "snd (handleButtonClick_host c h) =
          [Alert ''Entry Uid or Content type or Stack API could not be retrieved'']"
    by (simp add: handleButtonClick_host_blocked [OF blocked])
qed

text \<open>
  The stand-alone form as loaded; the ready host form that fails on the variant alone, whose
  message stands under the variant and nowhere else; and the host form blocked before the
  SDK has answered.
\<close>

theorem failures_shown_inline_or_by_alert_witness:
  "helperText ''entryUid'' (formErrors (fst (handleButtonClick sample_collaborators initial_state)))
     = Some ''Entry UID is required''
   \<and> filter external (snd (handleButtonClick sample_collaborators initial_state)) =
       [ConsoleLogIssues (formSchema_issues (formValues initial_state))]
   \<and> formErrors_host (fst (handleButtonClick_host sample_collaborators no_variant_state_host))
       \<noteq> []
   \<and> helperText ''environments''
       (formErrors_host (fst (handleButtonClick_host sample_collaborators no_variant_state_host)))
       = None
   \<and> helperText ''locales''
       (formErrors_host (fst (handleButtonClick_host sample_collaborators no_variant_state_host)))
       = None
   \<and> helperText ''variant''
       (formErrors_host (fst (handleButtonClick_host sample_collaborators no_variant_state_host)))
       = Some ''Variant is required''
   \<and> snd (handleButtonClick_host sample_collaborators initial_state_host) =
       [Alert ''Entry Uid or Content type or Stack API could not be retrieved'']"
proof -
  have bad: "isl (safeParse (formValues initial_state))"
    by (simp add: valid_simps sample_defs)
  have bad_host: "entryUid_host no_variant_state_host \<noteq> []
      \<and> contentType_host no_variant_state_host \<noteq> []
      \<and> stackAPI no_variant_state_host \<noteq> []
      \<and> isl (safeParse_host (formValues_host no_variant_state_host))"
    by (simp add: valid_simps sample_defs)
  have blocked: "entryUid_host initial_state_host = [] \<or> contentType_host initial_state_host = []
      \<or> stackAPI initial_state_host = []"
    by (simp add: sample_defs)
  have fields: "entryUid (formValues initial_state) = []"
    "production (environments_host (formValues_host no_variant_state_host))"
    "fr_fr (locales_host (formValues_host no_variant_state_host))"
    "variant_value (variant_host (formValues_host no_variant_state_host)) = []"
    by (simp_all add: sample_defs)
  from failures_shown_inline_or_by_alert
      [of initial_state sample_collaborators no_variant_state_host] bad bad_host
  have first: "helperText ''entryUid''
        (formErrors (fst (handleButtonClick sample_collaborators initial_state))) =
        (if entryUid (formValues initial_state) = [] then Some ''Entry UID is required'' else None)
    \<and> filter external (snd (handleButtonClick sample_collaborators initial_state)) =
       [ConsoleLogIssues (formSchema_issues (formValues initial_state))]
    \<and> formErrors_host (fst (handleButtonClick_host sample_collaborators no_variant_state_host))
       \<noteq> []
    \<and> helperText ''environments''
       (formErrors_host (fst (handleButtonClick_host sample_collaborators no_variant_state_host)))
       = (if production (environments_host (formValues_host no_variant_state_host))
              \<or> staging (environments_host (formValues_host no_variant_state_host))
              \<or> development (environments_host (formValues_host no_variant_state_host))
           then None else Some ''Please select at least one environment'')
    \<and> helperText ''locales''
       (formErrors_host (fst (handleButtonClick_host sample_collaborators no_variant_state_host)))
       = (if en_us (locales_host (formValues_host no_variant_state_host))
              \<or> fr_fr (locales_host (formValues_host no_variant_state_host))
              \<or> es (locales_host (formValues_host no_variant_state_host))
           then None else Some ''Please select at least one locale'')
    \<and> helperText ''variant''
       (formErrors_host (fst (handleButtonClick_host sample_collaborators no_variant_state_host)))
       = (if variant_label (variant_host (formValues_host no_variant_state_host)) = []
              \<or> variant_value (variant_host (formValues_host no_variant_state_host)) = []
           then Some ''Variant is required'' else None)"
    by blast
  from failures_shown_inline_or_by_alert
      [of initial_state sample_collaborators initial_state_host] blocked
  have second: "snd (handleButtonClick_host sample_collaborators initial_state_host) =
       [Alert ''Entry Uid or Content type or Stack API could not be retrieved'']"
    by blast
  from first second show ?thesis
    by (simp add: fields)
qed

text \<open>
  As first stated, for every failed submission, the claim fails: the blocked submission of
  the host-integrated form raises an alert and shows no inline error text.
\<close>

theorem blocked_submission_is_reported_by_alert_only:
  "alerts (snd (handleButtonClick_host sample_collaborators initial_state_host)) =
     [''Entry Uid or Content type or Stack API could not be retrieved'']
   \<and> formErrors_host (fst (handleButtonClick_host sample_collaborators initial_state_host)) = []"
  by (simp add: sample_defs handleButtonClick_host_blocked alerts_def)

text \<open>
  Claim C6.  In the host-integrated form the initialisation effect stores the entry uid,
  the content type and the stack API key that the sidebar widget provides (the empty string
  where it provides none); a later submission puts exactly these values in the payload; the
  submit handler never changes them; and whenever one of the three is empty the handler
  returns after its alert, before validation, encryption or the opening of a tab.
\<close>

theorem host_values_come_from_the_sidebar_and_guard_the_submission:
  "entryUid_host (init_then pw h) = or_empty (Option.bind pw entry_data_uid)
   \<and> contentType_host (init_then pw h) = or_empty (Option.bind pw entry_content_type_uid)
   \<and> stackAPI (init_then pw h) = or_empty (Option.bind pw stack_data_api_key)
   \<and> (entry_data_uid w = Some u \<and> entry_content_type_uid w = Some t
        \<and> stack_data_api_key w = Some k \<and> u \<noteq> [] \<and> t \<noteq> [] \<and> k \<noteq> []
        \<and> safeParse_host (formValues_host h) = Inr (formValues_host h) \<longrightarrow>
      map (payload_field ''entryUid'')
          (payloads (snd (handleButtonClick_host c (init_then (Some w) h)))) = [Some (JStr u)]
      \<and> map (payload_field ''contentType'')
          (payloads (snd (handleButtonClick_host c (init_then (Some w) h)))) = [Some (JStr t)]
      \<and> map (payload_field ''stackAPI'')
          (payloads (snd (handleButtonClick_host c (init_then (Some w) h)))) = [Some (JStr k)])
   \<and> (entryUid_host h = [] \<or> contentType_host h = [] \<or> stackAPI h = [] \<longrightarrow>
      handleButtonClick_host c h =
        (h, [Alert ''Entry Uid or Content type or Stack API could not be retrieved'']))
   \<and> entryUid_host (fst (handleButtonClick_host c h)) = entryUid_host h
   \<and> contentType_host (fst (handleButtonClick_host c h)) = contentType_host h
   \<and> stackAPI (fst (handleButtonClick_host c h)) = stackAPI h"
proof (intro conjI impI)
  show "entryUid_host (init_then pw h) = or_empty (Option.bind pw entry_data_uid)"
    and "contentType_host (init_then pw h) = or_empty (Option.bind pw entry_content_type_uid)"
    and "stackAPI (init_then pw h) = or_empty (Option.bind pw stack_data_api_key)"
    by (simp_all add: init_then_def)
next
  assume a: "entry_data_uid w = Some u \<and> entry_content_type_uid w = Some t
        \<and> stack_data_api_key w = Some k \<and> u \<noteq> [] \<and> t \<noteq> [] \<and> k \<noteq> []
        \<and> safeParse_host (formValues_host h) = Inr (formValues_host h)"
  define h' where "h' = init_then (Some w) h"
  from a have vals: "entryUid_host h' = u" "contentType_host h' = t" "stackAPI h' = k"
    and form: "formValues_host h' = formValues_host h"
    by (simp_all add: h'_def init_then_def or_empty_def)
  from a vals have ready: "entryUid_host h' \<noteq> []" "contentType_host h' \<noteq> []" "stackAPI h' \<noteq> []"
    by simp_all
  from a form have ok: "formSchema_host_issues (formValues_host h') = []"
    by (simp add: safeParse_host_Inr_iff)
  have sent: "payloads (snd (handleButtonClick_host c h')) = [result_host h' (formValues_host h')]"
    by (simp add: handleButtonClick_host_valid [OF ready ok] payloads_def)
  show "map (payload_field ''entryUid'')
          (payloads (snd (handleButtonClick_host c (init_then (Some w) h)))) = [Some (JStr u)]"
    unfolding h'_def [symmetric] sent by (simp add: payload_field_def result_host_def vals)
  show "map (payload_field ''contentType'')
          (payloads (snd (handleButtonClick_host c (init_then (Some w) h)))) = [Some (JStr t)]"
    unfolding h'_def [symmetric] sent by (simp add: payload_field_def result_host_def vals)
  show "map (payload_field ''stackAPI'')
          (payloads (snd (handleButtonClick_host c (init_then (Some w) h)))) = [Some (JStr k)]"
    unfolding h'_def [symmetric] sent by (simp add: payload_field_def result_host_def vals)
next
  assume "entryUid_host h = [] \<or> contentType_host h = [] \<or> stackAPI h = []"
  then show "handleButtonClick_host c h =
        (h, [Alert ''Entry Uid or Content type or Stack API could not be retrieved''])"
    by (rule handleButtonClick_host_blocked)
next
  show "entryUid_host (fst (handleButtonClick_host c h)) = entryUid_host h"
    and "contentType_host (fst (handleButtonClick_host c h)) = contentType_host h"
    and "stackAPI (fst (handleButtonClick_host c h)) = stackAPI h"
    by (simp_all add: handleButtonClick_host_def Let_def split: sum.splits)
qed

text \<open>A widget that provides all three values, and an SDK that provides no widget.\<close>

theorem host_values_come_from_the_sidebar_and_guard_the_submission_witness:
  "map (payload_field ''entryUid'')
     (payloads (snd (handleButtonClick_host sample_collaborators
        (init_then (Some sample_widget) unready_state_host)))) = [Some (JStr ''blt42'')]
   \<and> map (payload_field ''contentType'')
     (payloads (snd (handleButtonClick_host sample_collaborators
        (init_then (Some sample_widget) unready_state_host)))) = [Some (JStr ''page'')]
   \<and> map (payload_field ''stackAPI'')
     (payloads (snd (handleButtonClick_host sample_collaborators
        (init_then (Some sample_widget) unready_state_host)))) = [Some (JStr ''bltkey'')]
   \<and> handleButtonClick_host sample_collaborators (init_then None unready_state_host) =
       (init_then None unready_state_host,
        [Alert ''Entry Uid or Content type or Stack API could not be retrieved''])"
proof -
  have a: "entry_data_uid sample_widget = Some ''blt42''
      \<and> entry_content_type_uid sample_widget = Some ''page''
      \<and> stack_data_api_key sample_widget = Some ''bltkey''
      \<and> ''blt42'' \<noteq> [] \<and> ''page'' \<noteq> [] \<and> ''bltkey'' \<noteq> []
      \<and> safeParse_host (formValues_host unready_state_host)
          = Inr (formValues_host unready_state_host)"
    by (simp add: valid_simps sample_defs)
  have b: "entryUid_host (init_then None unready_state_host) = []
      \<or> contentType_host (init_then None unready_state_host) = []
      \<or> stackAPI (init_then None unready_state_host) = []"
    by (simp add: init_then_def or_empty_def)
  from a b show ?thesis
    using host_values_come_from_the_sidebar_and_guard_the_submission
        [of None unready_state_host sample_widget "''blt42''" "''page''" "''bltkey''"
           sample_collaborators]
      host_values_come_from_the_sidebar_and_guard_the_submission
        [of None "init_then None unready_state_host" sample_widget "''blt42''" "''page''"
           "''bltkey''" sample_collaborators]
    by blast
qed

text \<open>
  Claim C7, as the code has it.  Every invocation of the submit handler leaves the form
  values (and the host values) unchanged and changes no state but the inline error list.
  It opens one URL when validation is reached and succeeds and none otherwise.  Besides
  the URL, its effects outside the component are console output (the issues of a failed
  validation and, in the host-integrated form, the form data) and, in the host-integrated
  form, the alert of a blocked submission.
\<close>

theorem submit_changes_only_the_error_list:
  "fst (handleButtonClick c s) = s\<lparr>formErrors := formErrors (fst (handleButtonClick c s))\<rparr>
   \<and> formValues (fst (handleButtonClick c s)) = formValues s
   \<and> length (window_opens (snd (handleButtonClick c s))) =
       (if isl (safeParse (formValues s)) then 0 else 1)
   \<and> filter external (snd (handleButtonClick c s)) =
       (if isl (safeParse (formValues s))
        then [ConsoleLogIssues (formSchema_issues (formValues s))]
        else map (\<lambda>(url, target). WindowOpen url target)
               (window_opens (snd (handleButtonClick c s))))
   \<and> fst (handleButtonClick_host c h) =
       h\<lparr>formErrors_host := formErrors_host (fst (handleButtonClick_host c h))\<rparr>
   \<and> formValues_host (fst (handleButtonClick_host c h)) = formValues_host h
   \<and> length (window_opens (snd (handleButtonClick_host c h))) =
       (if entryUid_host h = [] \<or> contentType_host h = [] \<or> stackAPI h = []
           \<or> isl (safeParse_host (formValues_host h))
        then 0 else 1)
   \<and> filter external (snd (handleButtonClick_host c h)) =
       (if entryUid_host h = [] \<or> contentType_host h = [] \<or> stackAPI h = []
        then [Alert ''Entry Uid or Content type or Stack API could not be retrieved'']
        else if isl (safeParse_host (formValues_host h))
        then [ConsoleLogData (formValues_host h),
              ConsoleLogIssues (formSchema_host_issues (formValues_host h))]
        else ConsoleLogData (formValues_host h)
             # map (\<lambda>(url, target). WindowOpen url target)
                 (window_opens (snd (handleButtonClick_host c h))))"
proof -
  have standalone:
    "fst (handleButtonClick c s) = s\<lparr>formErrors := formErrors (fst (handleButtonClick c s))\<rparr>
     \<and> formValues (fst (handleButtonClick c s)) = formValues s
     \<and> length (window_opens (snd (handleButtonClick c s))) =
         (if isl (safeParse (formValues s)) then 0 else 1)
     \<and> filter external (snd (handleButtonClick c s)) =
         (if isl (safeParse (formValues s))
          then [ConsoleLogIssues (formSchema_issues (formValues s))]
          else map (\<lambda>(url, target). WindowOpen url target)
                 (window_opens (snd (handleButtonClick c s))))"
  proof (cases "formSchema_issues (formValues s) = []")
    case True
    then show ?thesis
      by (simp add: handleButtonClick_valid isl_safeParse_iff window_opens_def)
  next
    case False
    then show ?thesis
      by (simp add: handleButtonClick_invalid isl_safeParse_iff window_opens_def)
  qed
  have host:
    "fst (handleButtonClick_host c h) =
         h\<lparr>formErrors_host := formErrors_host (fst (handleButtonClick_host c h))\<rparr>
     \<and> formValues_host (fst (handleButtonClick_host c h)) = formValues_host h
     \<and> length (window_opens (snd (handleButtonClick_host c h))) =
         (if entryUid_host h = [] \<or> contentType_host h = [] \<or> stackAPI h = []
             \<or> isl (safeParse_host (formValues_host h))
          then 0 else 1)
     \<and> filter external (snd (handleButtonClick_host c h)) =
         (if entryUid_host h = [] \<or> contentType_host h = [] \<or> stackAPI h = []
          then [Alert ''Entry Uid or Content type or Stack API could not be retrieved'']
          else if isl (safeParse_host (formValues_host h))
          then [ConsoleLogData (formValues_host h),
                ConsoleLogIssues (formSchema_host_issues (formValues_host h))]
          else ConsoleLogData (formValues_host h)
               # map (\<lambda>(url, target). WindowOpen url target)
                   (window_opens (snd (handleButtonClick_host c h))))"
  proof (cases "entryUid_host h = [] \<or> contentType_host h = [] \<or> stackAPI h = []")
    case True
    then show ?thesis
      by (auto simp: handleButtonClick_host_blocked window_opens_def)
  next
    case ready: False
    show ?thesis
    proof (cases "formSchema_host_issues (formValues_host h) = []")
      case True
      with ready show ?thesis
        by (simp add: handleButtonClick_host_valid isl_safeParse_host_iff window_opens_def)
    next
      case False
      with ready show ?thesis
        by (simp add: handleButtonClick_host_invalid isl_safeParse_host_iff window_opens_def)
    qed
  qed
  from standalone host show ?thesis by blast
qed

text \<open>Passing, failing and blocked submissions.\<close>

theorem submit_changes_only_the_error_list_witness:
  "length (window_opens (snd (handleButtonClick sample_collaborators filled_state))) = 1
   \<and> length (window_opens (snd (handleButtonClick sample_collaborators initial_state))) = 0
   \<and> formValues (fst (handleButtonClick sample_collaborators initial_state)) = defaultValues
   \<and> length (window_opens (snd (handleButtonClick_host sample_collaborators ready_state_host))) = 1
   \<and> length (window_opens (snd (handleButtonClick_host sample_collaborators unready_state_host)))
       = 0
   \<and> formValues_host (fst (handleButtonClick_host sample_collaborators unready_state_host))
       = filled_values_host"
  using submit_changes_only_the_error_list
      [of sample_collaborators filled_state ready_state_host]
    submit_changes_only_the_error_list
      [of sample_collaborators initial_state unready_state_host]
  by (simp add: valid_simps sample_defs)

text \<open>
  As first stated, with the opening of a URL as the only external effect, the claim fails:
  the effect of a blocked submission outside the component is an alert.
\<close>

theorem blocked_submission_shows_an_alert:
  "filter external (snd (handleButtonClick_host sample_collaborators unready_state_host)) =
     [Alert ''Entry Uid or Content type or Stack API could not be retrieved'']"
  by (simp add: sample_defs handleButtonClick_host_blocked)

text \<open>
  Claim C8.  The \<open>data\<close> parameter of the opened URL is \<open>btoa\<close> of the ciphertext string
  that the encryption call returned, and it differs from that string whenever the string
  is non-empty (it is a third longer), so the ciphertext itself is not what the URL carries.
\<close>

theorem data_parameter_is_btoa_of_the_ciphertext:
  "(safeParse (formValues s) = Inr (formValues s) \<longrightarrow>
      encryptions (snd (handleButtonClick c s)) =
        [(JSON_stringify c (result (formValues s)), VITE_APP_ENCRYPT_SECRET c)]
      \<and> window_opens (snd (handleButtonClick c s)) =
        [(''https://demo-graph.contentstackapps.com?data=''
            @ btoa (ciphertext c (result (formValues s))), ''_blank'')]
      \<and> (ciphertext c (result (formValues s)) \<noteq> [] \<longrightarrow>
          btoa (ciphertext c (result (formValues s))) \<noteq> ciphertext c (result (formValues s))))
   \<and> (entryUid_host h \<noteq> [] \<and> contentType_host h \<noteq> [] \<and> stackAPI h \<noteq> []
        \<and> safeParse_host (formValues_host h) = Inr (formValues_host h) \<longrightarrow>
      encryptions (snd (handleButtonClick_host c h)) =
        [(JSON_stringify c (result_host h (formValues_host h)), VITE_APP_ENCRYPT_SECRET c)]
      \<and> window_opens (snd (handleButtonClick_host c h)) =
        [(''https://demo-graph-refactored.contentstackapps.com/?data=''
            @ btoa (ciphertext c (result_host h (formValues_host h))), ''_blank'')]
      \<and> (ciphertext c (result_host h (formValues_host h)) \<noteq> [] \<longrightarrow>
          btoa (ciphertext c (result_host h (formValues_host h)))
            \<noteq> ciphertext c (result_host h (formValues_host h))))"
proof (intro conjI impI)
  assume "safeParse (formValues s) = Inr (formValues s)"
  then have ok: "formSchema_issues (formValues s) = []"
    by (simp add: safeParse_Inr_iff)
  note click = handleButtonClick_valid [OF ok, of c]
  show "encryptions (snd (handleButtonClick c s)) =
        [(JSON_stringify c (result (formValues s)), VITE_APP_ENCRYPT_SECRET c)]"
    by (simp add: click encryptions_def)
  show "window_opens (snd (handleButtonClick c s)) =
        [(''https://demo-graph.contentstackapps.com?data=''
            @ btoa (ciphertext c (result (formValues s))), ''_blank'')]"
    by (simp add: click window_opens_def ciphertext_def)
next
  assume "ciphertext c (result (formValues s)) \<noteq> []"
  then show "btoa (ciphertext c (result (formValues s))) \<noteq> ciphertext c (result (formValues s))"
    by (simp add: btoa_fixed_iff)
next
  assume "entryUid_host h \<noteq> [] \<and> contentType_host h \<noteq> [] \<and> stackAPI h \<noteq> []
        \<and> safeParse_host (formValues_host h) = Inr (formValues_host h)"
  then have ready: "entryUid_host h \<noteq> []" "contentType_host h \<noteq> []" "stackAPI h \<noteq> []"
    and ok: "formSchema_host_issues (formValues_host h) = []"
    by (simp_all add: safeParse_host_Inr_iff)
  note click = handleButtonClick_host_valid [OF ready ok, of c]
  show "encryptions (snd (handleButtonClick_host c h)) =
        [(JSON_stringify c (result_host h (formValues_host h)), VITE_APP_ENCRYPT_SECRET c)]"
    by (simp add: click encryptions_def)
  show "window_opens (snd (handleButtonClick_host c h)) =
        [(''https://demo-graph-refactored.contentstackapps.com/?data=''
            @ btoa (ciphertext c (result_host h (formValues_host h))), ''_blank'')]"
    by (simp add: click window_opens_def ciphertext_def)
next
  assume "ciphertext c (result_host h (formValues_host h)) \<noteq> []"
  then show "btoa (ciphertext c (result_host h (formValues_host h)))
            \<noteq> ciphertext c (result_host h (formValues_host h))"
    by (simp add: btoa_fixed_iff)
qed

text \<open>The URL of the filled-in stand-alone form under the sample collaborators.\<close>

theorem data_parameter_is_btoa_of_the_ciphertext_witness:
  "window_opens (snd (handleButtonClick sample_collaborators filled_state)) =
     [(''https://demo-graph.contentstackapps.com?data=VTJGc2RHVmtYMTl6TTJOeVpYUjdJbVZ1ZG1seWIyNXRaVzUwY3lJNld5SndjbTlrZFdOMGFXOXVJaXdpWkdWMlpXeHZjRzFsYm5RaVhTd2liRzlqWVd4bGN5STZXeUptY2kxbWNpSmRMQ0oyWVhKcFlXNTBJam9pZEdWamFDSXNJbVZ1ZEhKNVZXbGtJam9pWW14ME5ESWlMQ0pqYjI1MFpXNTBWSGx3WlNJNkluQmhaMlVpZlE9PQ=='',
       ''_blank'')]
   \<and> btoa (ciphertext sample_collaborators (result filled_values))
       \<noteq> ciphertext sample_collaborators (result filled_values)
   \<and> window_opens (snd (handleButtonClick_host sample_collaborators ready_state_host)) =
     [(''https://demo-graph-refactored.contentstackapps.com/?data=''
         @ btoa (ciphertext sample_collaborators
                   (result_host ready_state_host (formValues_host ready_state_host))), ''_blank'')]
   \<and> btoa (ciphertext sample_collaborators
               (result_host ready_state_host (formValues_host ready_state_host)))
       \<noteq> ciphertext sample_collaborators
           (result_host ready_state_host (formValues_host ready_state_host))"
proof -
  have filled: "formValues filled_state = filled_values"
    by (simp add: filled_state_def)
  have ok: "safeParse (formValues filled_state) = Inr (formValues filled_state)"
    by (simp add: valid_simps sample_defs)
  have ok_host: "entryUid_host ready_state_host \<noteq> [] \<and> contentType_host ready_state_host \<noteq> []
      \<and> stackAPI ready_state_host \<noteq> []
      \<and> safeParse_host (formValues_host ready_state_host) = Inr (formValues_host ready_state_host)"
    by (simp add: valid_simps sample_defs)
  from data_parameter_is_btoa_of_the_ciphertext
      [of filled_state sample_collaborators ready_state_host] ok ok_host
    sample_ciphertext_nonempty
  have "window_opens (snd (handleButtonClick sample_collaborators filled_state)) =
     [(''https://demo-graph.contentstackapps.com?data=''
         @ btoa (ciphertext sample_collaborators (result (formValues filled_state))), ''_blank'')]
   \<and> btoa (ciphertext sample_collaborators (result (formValues filled_state)))
       \<noteq> ciphertext sample_collaborators (result (formValues filled_state))
   \<and> window_opens (snd (handleButtonClick_host sample_collaborators ready_state_host)) =
     [(''https://demo-graph-refactored.contentstackapps.com/?data=''
         @ btoa (ciphertext sample_collaborators
                   (result_host ready_state_host (formValues_host ready_state_host))), ''_blank'')]
   \<and> btoa (ciphertext sample_collaborators
               (result_host ready_state_host (formValues_host ready_state_host)))
       \<noteq> ciphertext sample_collaborators
           (result_host ready_state_host (formValues_host ready_state_host))"
    by blast
  then show ?thesis
    by (simp add: filled sample_data)
qed

text \<open>
  Claim C9.  For every field name and every error list, \<open>handleFieldChange\<close> leaves the
  form values alone and turns the error list into a subsequence of itself in which the
  entries with that path no longer occur and every other entry occurs as often as before.
\<close>

theorem handleFieldChange_removes_that_path_only:
  "formValues (handleFieldChange fieldName s) = formValues s
   \<and> subseq (formErrors (handleFieldChange fieldName s)) (formErrors s)
   \<and> (\<forall>e. count_list (formErrors (handleFieldChange fieldName s)) e =
          (if path e = Some fieldName then 0 else count_list (formErrors s) e))
   \<and> formValues_host (handleFieldChange_host fieldName h) = formValues_host h
   \<and> entryUid_host (handleFieldChange_host fieldName h) = entryUid_host h
   \<and> contentType_host (handleFieldChange_host fieldName h) = contentType_host h
   \<and> stackAPI (handleFieldChange_host fieldName h) = stackAPI h
   \<and> subseq (formErrors_host (handleFieldChange_host fieldName h)) (formErrors_host h)
   \<and> (\<forall>e. count_list (formErrors_host (handleFieldChange_host fieldName h)) e =
          (if path e = Some fieldName then 0 else count_list (formErrors_host h) e))"
  by (simp add: handleFieldChange_def handleFieldChange_host_def count_list_filter)

text \<open>Changing the variant after a failed submission of the form as loaded.\<close>

theorem handleFieldChange_removes_that_path_only_witness:
  "formErrors (handleFieldChange ''variant''
       (fst (handleButtonClick sample_collaborators initial_state))) =
     [\<lparr>path = Some ''environments'', message = ''Please select at least one environment''\<rparr>,
      \<lparr>path = Some ''locales'', message = ''Please select at least one locale''\<rparr>,
      \<lparr>path = Some ''entryUid'', message = ''Entry UID is required''\<rparr>,
      \<lparr>path = Some ''contentType'', message = ''Content Type is required''\<rparr>]
   \<and> count_list (formErrors (handleFieldChange ''variant''
         (fst (handleButtonClick sample_collaborators initial_state))))
       \<lparr>path = Some ''variant'', message = ''Please select a variant''\<rparr> = 0
   \<and> count_list (formErrors (handleFieldChange ''variant''
         (fst (handleButtonClick sample_collaborators initial_state))))
       \<lparr>path = Some ''locales'', message = ''Please select at least one locale''\<rparr> = 1"
proof -
  have bad: "formSchema_issues (formValues initial_state) \<noteq> []"
    by (simp add: valid_simps sample_defs)
  have errs: "formErrors (fst (handleButtonClick sample_collaborators initial_state)) =
     [\<lparr>path = Some ''environments'', message = ''Please select at least one environment''\<rparr>,
      \<lparr>path = Some ''locales'', message = ''Please select at least one locale''\<rparr>,
      \<lparr>path = Some ''variant'', message = ''Please select a variant''\<rparr>,
      \<lparr>path = Some ''entryUid'', message = ''Entry UID is required''\<rparr>,
      \<lparr>path = Some ''contentType'', message = ''Content Type is required''\<rparr>]"
    by (simp add: handleButtonClick_invalid [OF bad])
      (simp add: sample_defs formSchema_issues_def schema_defs errorMessage_def path0_def)
  have shown: "formErrors (handleFieldChange ''variant''
       (fst (handleButtonClick sample_collaborators initial_state))) =
     [\<lparr>path = Some ''environments'', message = ''Please select at least one environment''\<rparr>,
      \<lparr>path = Some ''locales'', message = ''Please select at least one locale''\<rparr>,
      \<lparr>path = Some ''entryUid'', message = ''Entry UID is required''\<rparr>,
      \<lparr>path = Some ''contentType'', message = ''Content Type is required''\<rparr>]"
    by (simp add: handleFieldChange_def errs)
  show ?thesis
    using handleFieldChange_removes_that_path_only
      [of "''variant''" "fst (handleButtonClick sample_collaborators initial_state)"]
    by (simp add: shown errs)
qed

text \<open>
  Claim C10.  Whenever validation succeeds, the last call of \<open>setFormErrors\<close> before
  \<open>window.open\<close> set the empty list, the error list is empty after the handler, and no
  field shows an inline message.
\<close>

theorem errors_cleared_before_the_tab_opens:
  "(\<not> isl (safeParse (formValues s)) \<longrightarrow>
      errors_at_open (formErrors s) (snd (handleButtonClick c s)) = [[]]
      \<and> formErrors (fst (handleButtonClick c s)) = []
      \<and> (\<forall>name. helperText name (formErrors (fst (handleButtonClick c s))) = None))
   \<and> (entryUid_host h \<noteq> [] \<and> contentType_host h \<noteq> [] \<and> stackAPI h \<noteq> []
        \<and> \<not> isl (safeParse_host (formValues_host h)) \<longrightarrow>
      errors_at_open (formErrors_host h) (snd (handleButtonClick_host c h)) = [[]]
      \<and> formErrors_host (fst (handleButtonClick_host c h)) = []
      \<and> (\<forall>name. helperText name (formErrors_host (fst (handleButtonClick_host c h))) = None))"
proof (intro conjI impI)
  assume "\<not> isl (safeParse (formValues s))"
  then have ok: "formSchema_issues (formValues s) = []"
    by (simp add: isl_safeParse_iff)
  note click = handleButtonClick_valid [OF ok, of c]
  show "errors_at_open (formErrors s) (snd (handleButtonClick c s)) = [[]]"
    by (simp add: click)
  show "formErrors (fst (handleButtonClick c s)) = []"
    by (simp add: click)
  then show "\<forall>name. helperText name (formErrors (fst (handleButtonClick c s))) = None"
    by (simp add: helperText_def)
next
  assume "entryUid_host h \<noteq> [] \<and> contentType_host h \<noteq> [] \<and> stackAPI h \<noteq> []
        \<and> \<not> isl (safeParse_host (formValues_host h))"
  then have ready: "entryUid_host h \<noteq> []" "contentType_host h \<noteq> []" "stackAPI h \<noteq> []"
    and ok: "formSchema_host_issues (formValues_host h) = []"
    by (simp_all add: isl_safeParse_host_iff)
  note click = handleButtonClick_host_valid [OF ready ok, of c]
  show "errors_at_open (formErrors_host h) (snd (handleButtonClick_host c h)) = [[]]"
    by (simp add: click)
  show "formErrors_host (fst (handleButtonClick_host c h)) = []"
    by (simp add: click)
  then show "\<forall>name. helperText name (formErrors_host (fst (handleButtonClick_host c h))) = None"
    by (simp add: helperText_def)
qed

text \<open>The two filled-in forms.\<close>

theorem errors_cleared_before_the_tab_opens_witness:
  "errors_at_open (formErrors filled_state)
     (snd (handleButtonClick sample_collaborators filled_state)) = [[]]
   \<and> formErrors (fst (handleButtonClick sample_collaborators filled_state)) = []
   \<and> errors_at_open (formErrors_host ready_state_host)
       (snd (handleButtonClick_host sample_collaborators ready_state_host)) = [[]]
   \<and> formErrors_host (fst (handleButtonClick_host sample_collaborators ready_state_host)) = []"
  using errors_cleared_before_the_tab_opens
    [of filled_state sample_collaborators ready_state_host]
  by (simp add: valid_simps sample_defs)

end
